theory Spec2Isabelle
  imports Complex_Main "HOL-Library.Word" "HOL-Library.Multiset"
begin

section \<open>The client-side script of the portfolio site (js/main.js)\<close>

text \<open>
  The script is a sequence of drafts of the same classes. Three of them are embedded here:
  \<^item> \<open>UIController.calculateOpacity\<close> (lines 150-158) with the \<open>CONFIG\<close> object
    (lines 23-37);
  \<^item> the first \<open>BlogPostManager\<close> (lines 200-423): private \<open>#state\<close>, category
    filter, search, date sort;
  \<^item> the last, "simple" \<open>BlogPostManager\<close> (lines 1128-1348): detail modal with
    fetched comments, search with a "no results" panel.

  Built-ins of the language whose result depends on Unicode tables, on locale data or on
  the date parser of the engine are parameters of the model (record \<open>host\<close>); array
  methods, template literals, exceptions and property look-ups are written out.
\<close>

subsection \<open>Strings\<close>

text \<open>
  A JavaScript string is a sequence of UTF-16 code units; \<open>===\<close> on strings compares
  the sequences. ASCII text is written with \<open>js\<close>, other text by its code units.
\<close>

type_synonym jsstring = "16 word list"

definition js :: "string \<Rightarrow> jsstring" where
  "js s = map of_char s"

text \<open>\<open>String.prototype.startsWith\<close> and \<open>String.prototype.includes\<close> (from position 0).\<close>

fun startsWith :: "jsstring \<Rightarrow> jsstring \<Rightarrow> bool" where
  "startsWith s [] = True"
| "startsWith [] (c # t) = False"
| "startsWith (d # s) (c # t) = (d = c \<and> startsWith s t)"

fun str_includes :: "jsstring \<Rightarrow> jsstring \<Rightarrow> bool" where
  "str_includes [] t = (t = [])"
| "str_includes (d # s) t = (startsWith (d # s) t \<or> str_includes s t)"

text \<open>
  \<open>Array.prototype.join("")\<close> on an array of strings.
\<close>

definition join :: "jsstring list \<Rightarrow> jsstring" where
  "join parts = concat parts"

text \<open>
  Number to string inside a template literal, for an integer value (decimal digits, a
  leading minus sign). Identifiers and array lengths are integers below \<open>10^21\<close>, where
  the engine prints no exponent.
\<close>

fun digits :: "nat \<Rightarrow> jsstring" where
  "digits n = (if n < 10 then [of_nat (48 + n)] else digits (n div 10) @ [of_nat (48 + n mod 10)])"

definition numberToString :: "int \<Rightarrow> jsstring" where
  "numberToString i = (if i < 0 then js ''-'' @ digits (nat (- i)) else digits (nat i))"

subsection \<open>Posts\<close>

text \<open>
  A post as the data source delivers it (\<open>/data/posts.json\<close>). The field \<open>id\<close> is
  written \<open>id'\<close>, since \<open>id\<close> is the identity function of HOL.
\<close>

record post =
  id' :: int
  title :: jsstring
  body :: jsstring
  date :: jsstring
  author :: jsstring
  category :: jsstring

subsection \<open>Built-ins taken as parameters\<close>

text \<open>
  \<^item> \<open>toLowerCase\<close>: \<open>String.prototype.toLowerCase\<close> (Unicode case mapping);
  \<^item> \<open>Date_value\<close>: the time value of \<open>new Date(s)\<close> in milliseconds, \<open>None\<close> for
    an Invalid Date, whose number value is NaN;
  \<^item> \<open>toLocaleDateString\<close>: \<open>Date.prototype.toLocaleDateString("ja-JP")\<close> as a function
    of the time value;
  \<^item> \<open>engine_sort\<close>: the order in which \<open>Array.prototype.sort\<close> of the engine
    leaves an array when the comparator is not consistent, where the standard leaves the
    order to the implementation.
\<close>

record host =
  toLowerCase :: "jsstring \<Rightarrow> jsstring"
  Date_value :: "jsstring \<Rightarrow> int option"
  toLocaleDateString :: "int option \<Rightarrow> jsstring"
  engine_sort :: "(post \<Rightarrow> post \<Rightarrow> int option) \<Rightarrow> post list \<Rightarrow> post list"

subsection \<open>CONFIG and the header opacity\<close>

text \<open>
  \<open>CONFIG.scroll\<close> (lines 25-30). JavaScript numbers are doubles;
  they are modelled by the reals they denote. \<open>Math.min\<close> and \<open>Math.max\<close> return one
  of their arguments, so the bounds of \<open>calculateOpacity\<close> do not depend on how the
  inner quotient and difference are rounded.
\<close>

record scroll_config =
  threshold :: real
  headerOpacityMax :: real
  headerOpacityMin :: real
  buttonShowThreshold :: real

definition CONFIG_scroll :: scroll_config where
  "CONFIG_scroll =
     \<lparr>threshold = 100, headerOpacityMax = 0.9, headerOpacityMin = 0.6,
      buttonShowThreshold = 100\<rparr>"

text \<open>
  \<open>UIController.calculateOpacity\<close> (lines 150-158); \<open>this.#scrollThreshold\<close> is
  \<open>CONFIG.scroll.threshold\<close>, set once by the constructor (line 112).
\<close>

definition calculateOpacity :: "real \<Rightarrow> real" where
  "calculateOpacity scrollTop =
     min (headerOpacityMax CONFIG_scroll)
       (max (headerOpacityMin CONFIG_scroll) (1 - scrollTop / threshold CONFIG_scroll))"

subsection \<open>Errors, the page\<close>

text \<open>
  Exceptions and promise rejections are values: \<open>Error m\<close> is \<open>new Error(m)\<close> thrown by
  the script, \<open>TypeError\<close> is raised by the engine on a property read of \<open>undefined\<close>,
  \<open>NetworkError\<close> is the rejection of \<open>fetch\<close>, \<open>SyntaxError\<close> the rejection of
  \<open>response.json()\<close> on a body that is not JSON.
\<close>

datatype js_error = Error jsstring | TypeError | NetworkError | SyntaxError

text \<open>
  What the script reads and writes outside its own objects: the \<open>innerHTML\<close> of the
  element \<open>.blog-posts\<close> (\<open>None\<close> when the page has no such element and
  \<open>document.querySelector\<close> returns \<open>null\<close>), and the calls of \<open>console.error\<close>
  with their label and error.
\<close>

record page =
  container :: "jsstring option"
  console :: "(jsstring \<times> js_error) list"

subsection \<open>The first BlogPostManager: state and arrays\<close>

text \<open>
  Arrays are objects with identity: \<open>this.#state.posts\<close> holds a reference, \<open>filter\<close>
  and the spread \<open>[...a]\<close> allocate a new array, \<open>sort\<close> reorders its receiver in
  place. The store maps a reference to the elements of the array; \<open>fresh\<close> is the next
  unused reference. The posts themselves are never written by the script and are stored
  by value.

  \<open>posts\<close>, \<open>categories\<close>, \<open>currentFilter\<close> and \<open>sortOrder\<close> are the fields of
  \<open>#state\<close> (lines 201-206); \<open>categories\<close> is a \<open>Set\<close>, kept as the list of its
  members in insertion order.
\<close>

type_synonym ref = nat

record world = page +
  posts :: ref
  categories :: "jsstring list"
  currentFilter :: jsstring
  sortOrder :: jsstring
  cells :: "ref \<Rightarrow> post list"
  fresh :: ref

text \<open>
  The state of a new manager (lines 201-206) on a given page: \<open>posts\<close> refers to a new
  empty array.
\<close>

definition initial :: "page \<Rightarrow> world" where
  "initial pg =
     \<lparr>container = container pg, console = console pg, posts = 0, categories = [],
      currentFilter = js ''all'', sortOrder = js ''newest'', cells = (\<lambda>a. []), fresh = 1\<rparr>"

definition stored :: "world \<Rightarrow> post list" where
  "stored w = cells w (posts w)"

definition alloc :: "post list \<Rightarrow> world \<Rightarrow> ref \<times> world" where
  "alloc xs w = (fresh w, w\<lparr>cells := (cells w)(fresh w := xs), fresh := Suc (fresh w)\<rparr>)"

text \<open>\<open>a.filter(f)\<close> and \<open>[...a]\<close>: a new array each time.\<close>

definition Array_filter :: "(post \<Rightarrow> bool) \<Rightarrow> ref \<Rightarrow> world \<Rightarrow> ref \<times> world" where
  "Array_filter f a w = alloc (filter f (cells w a)) w"

definition spread :: "ref \<Rightarrow> world \<Rightarrow> ref \<times> world" where
  "spread a w = alloc (cells w a) w"

text \<open>
  \<open>a.sort(comparefn)\<close>. The comparator returns a number, \<open>None\<close> standing for NaN.
  The standard fixes the result only for a consistent comparator: \<open>consistent\<close> writes
  out its conditions on the elements of the array (no call returns NaN; \<open>=\<close> is
  reflexive, symmetric and transitive; \<open><\<close> and \<open>>\<close> are transitive). Then the result
  is the stable sort, computed here by insertion from the right end (\<open>insertionSort\<close>).
  For any other comparator, one that returns NaN for an unparseable date among them, the
  order is the engine's own (\<open>engine_sort\<close>); the model says nothing about it. The
  receiver is reordered in place and returned.
\<close>

definition eqCF :: "('a \<Rightarrow> 'a \<Rightarrow> int option) \<Rightarrow> 'a \<Rightarrow> 'a \<Rightarrow> bool" where
  "eqCF comparefn a b = (comparefn a b = Some 0)"

definition ltCF :: "('a \<Rightarrow> 'a \<Rightarrow> int option) \<Rightarrow> 'a \<Rightarrow> 'a \<Rightarrow> bool" where
  "ltCF comparefn a b = (case comparefn a b of None \<Rightarrow> False | Some v \<Rightarrow> v < 0)"

definition gtCF :: "('a \<Rightarrow> 'a \<Rightarrow> int option) \<Rightarrow> 'a \<Rightarrow> 'a \<Rightarrow> bool" where
  "gtCF comparefn a b = (case comparefn a b of None \<Rightarrow> False | Some v \<Rightarrow> 0 < v)"

definition consistent :: "('a \<Rightarrow> 'a \<Rightarrow> int option) \<Rightarrow> 'a list \<Rightarrow> bool" where
  "consistent comparefn xs =
     list_all (\<lambda>a. list_all (\<lambda>b. list_all (\<lambda>c.
         comparefn a b \<noteq> None
         \<and> eqCF comparefn a a
         \<and> (eqCF comparefn a b \<longrightarrow> eqCF comparefn b a)
         \<and> (eqCF comparefn a b \<and> eqCF comparefn b c \<longrightarrow> eqCF comparefn a c)
         \<and> (ltCF comparefn a b \<and> ltCF comparefn b c \<longrightarrow> ltCF comparefn a c)
         \<and> (gtCF comparefn a b \<and> gtCF comparefn b c \<longrightarrow> gtCF comparefn a c)) xs) xs) xs"

definition SortCompare :: "('a \<Rightarrow> 'a \<Rightarrow> int option) \<Rightarrow> 'a \<Rightarrow> 'a \<Rightarrow> int" where
  "SortCompare comparefn x y = (case comparefn x y of None \<Rightarrow> 0 | Some v \<Rightarrow> v)"

fun insertSorted :: "('a \<Rightarrow> 'a \<Rightarrow> int option) \<Rightarrow> 'a \<Rightarrow> 'a list \<Rightarrow> 'a list" where
  "insertSorted comparefn x [] = [x]"
| "insertSorted comparefn x (y # ys) =
     (if SortCompare comparefn x y \<le> 0 then x # y # ys
      else y # insertSorted comparefn x ys)"

definition insertionSort :: "('a \<Rightarrow> 'a \<Rightarrow> int option) \<Rightarrow> 'a list \<Rightarrow> 'a list" where
  "insertionSort comparefn xs = foldr (insertSorted comparefn) xs []"

definition sortList :: "host \<Rightarrow> (post \<Rightarrow> post \<Rightarrow> int option) \<Rightarrow> post list \<Rightarrow> post list" where
  "sortList h comparefn xs =
     (if consistent comparefn xs then insertionSort comparefn xs else engine_sort h comparefn xs)"

definition Array_sort ::
  "host \<Rightarrow> (post \<Rightarrow> post \<Rightarrow> int option) \<Rightarrow> ref \<Rightarrow> world \<Rightarrow> ref \<times> world" where
  "Array_sort h comparefn a w =
     (a, w\<lparr>cells := (cells w)(a := sortList h comparefn (cells w a))\<rparr>)"

subsection \<open>The first BlogPostManager: fetching\<close>

text \<open>
  The outcome of a \<open>fetch\<close>: the promise rejects (\<open>Failed\<close>), or it resolves to
  a response with its \<open>ok\<close> flag and a body that \<open>response.json()\<close> either rejects
  (\<open>Malformed\<close>) or parses to data (\<open>Data\<close>).

  For \<open>/data/posts.json\<close> the parsed data is \<open>null\<close> (\<open>Null\<close>), where reading
  \<open>data.posts\<close> raises a TypeError; or an object whose \<open>posts\<close> is an array of posts
  (\<open>PostsArray\<close>), as the schema has it; or any other JSON value (\<open>NoPostsArray\<close>:
  an object such as \<open>{}\<close>, a number, a string, an array), where \<open>data.posts\<close> is
  \<open>undefined\<close> or some value that is not an array of posts.
\<close>

datatype 'a json_body = Malformed | Data 'a

datatype 'a fetch_result = Failed | Response bool "'a json_body"

datatype posts_data = Null | NoPostsArray | PostsArray "post list"

text \<open>
  The state after \<open>fetchPosts\<close>: \<open>Stored w\<close> when \<open>this.#state.posts\<close> refers to an
  array, in the state \<open>w\<close>; \<open>NotAnArray w\<close> when line 252 has stored a value that is
  not an array (\<open>w\<close> is the state before the assignment: the page, the arrays and the
  other fields of \<open>#state\<close> are as they were). The listeners below are modelled on states
  whose \<open>posts\<close> refers to an array. \<open>store_contents\<close> reads the stored collection.
\<close>

datatype loaded = Stored world | NotAnArray world

definition store_contents :: "loaded \<Rightarrow> post list option" where
  "store_contents l = (case l of Stored w \<Rightarrow> Some (stored w) | NotAnArray w \<Rightarrow> None)"

text \<open>The texts of lines 250-262: the message of the thrown error, the label of the log
  entry ("data fetch error:"), and title ("an error has occurred"), body ("loading the
  data failed."), author ("system") and category ("error") of the fallback post.\<close>

definition fetch_failed_message :: jsstring where
  "fetch_failed_message =
     [0x30C7, 0x30FC, 0x30BF, 0x306E, 0x53D6, 0x5F97, 0x306B, 0x5931, 0x6557, 0x3057, 0x307E,
      0x3057, 0x305F]"

definition fetch_error_label :: jsstring where
  "fetch_error_label = [0x30C7, 0x30FC, 0x30BF, 0x53D6, 0x5F97, 0x30A8, 0x30E9, 0x30FC] @ js '':''"

definition error_title :: jsstring where
  "error_title = [0x30A8, 0x30E9, 0x30FC, 0x304C, 0x767A, 0x751F, 0x3057, 0x307E, 0x3057, 0x305F]"

definition error_body :: jsstring where
  "error_body =
     [0x30C7, 0x30FC, 0x30BF, 0x306E, 0x8AAD, 0x307F, 0x8FBC, 0x307F, 0x306B, 0x5931, 0x6557,
      0x3057, 0x307E, 0x3057, 0x305F, 0x3002]"

definition system_author :: jsstring where
  "system_author = [0x30B7, 0x30B9, 0x30C6, 0x30E0]"

definition error_category :: jsstring where
  "error_category = [0x30A8, 0x30E9, 0x30FC]"

text \<open>
  \<open>fetchPosts\<close> (lines 247-266). \<open>fetchPosts_try\<close> is the \<open>try\<close> block, with the
  error it throws or the rejection it awaits on the left; line 252 stores \<open>data.posts\<close>
  whatever it is. The \<open>catch\<close> block logs and stores the one-element fallback array.
  \<open>now\<close> is \<open>new Date().toISOString()\<close>.
\<close>

definition fetchPosts_try :: "posts_data fetch_result \<Rightarrow> world \<Rightarrow> js_error + loaded" where
  "fetchPosts_try response w =
     (case response of
        Failed \<Rightarrow> Inl NetworkError
      | Response ok json \<Rightarrow>
          if \<not> ok then Inl (Error fetch_failed_message)
          else (case json of
                  Malformed \<Rightarrow> Inl SyntaxError
                | Data data \<Rightarrow>
                    (case data of
                       Null \<Rightarrow> Inl TypeError
                     | NoPostsArray \<Rightarrow> Inr (NotAnArray w)
                     | PostsArray ps \<Rightarrow>
                         (let (a, w') = alloc ps w in Inr (Stored (w'\<lparr>posts := a\<rparr>))))))"

definition fallback_post :: "jsstring \<Rightarrow> post" where
  "fallback_post now =
     \<lparr>id' = 1, title = error_title, body = error_body, date = now,
      author = system_author, category = error_category\<rparr>"

definition fetchPosts :: "jsstring \<Rightarrow> posts_data fetch_result \<Rightarrow> world \<Rightarrow> loaded" where
  "fetchPosts now response w =
     (case fetchPosts_try response w of
        Inr l \<Rightarrow> l
      | Inl error \<Rightarrow>
          (let w1 = w\<lparr>console := console w @ [(fetch_error_label, error)]\<rparr>;
               (a, w2) = alloc [fallback_post now] w1
           in Stored (w2\<lparr>posts := a\<rparr>)))"

subsection \<open>The first BlogPostManager: rendering\<close>

text \<open>\<open>utils.formatDate\<close> (lines 56-58).\<close>

definition formatDate :: "host \<Rightarrow> jsstring \<Rightarrow> jsstring" where
  "formatDate h d = toLocaleDateString h (Date_value h d)"

text \<open>
  The template literal of \<open>renderPosts\<close> (lines 281-296) for one post; the two runs of
  code units are the label "posted by" and the caption "read more" of the button.
\<close>

definition article :: "host \<Rightarrow> post \<Rightarrow> jsstring" where
  "article h p =
     js ''\<newline>      <article class=\"blog-post\" data-post-id=\"'' @ numberToString (id' p)
     @ js ''\">\<newline>        <h3>'' @ title p
     @ js ''</h3>\<newline>        <div class=\"post-meta-header\">\<newline>          <span class=\"category\">''
     @ category p
     @ js ''</span>\<newline>          <span class=\"author\">'' @ [0x6295, 0x7A3F, 0x8005] @ js '': ''
     @ author p
     @ js ''</span>\<newline>        </div>\<newline>        <p>'' @ body p
     @ js ''</p>\<newline>        <div class=\"post-meta\">\<newline>          <time datetime=\"''
     @ date p @ js ''\">'' @ formatDate h (date p)
     @ js ''</time>\<newline>          <button class=\"read-more-btn\" data-post-id=\"''
     @ numberToString (id' p) @ js ''\">'' @ [0x7D9A, 0x304D, 0x3092, 0x8AAD, 0x3080]
     @ js ''</button>\<newline>        </div>\<newline>      </article>\<newline>    ''"

text \<open>The fallback text of line 300: a paragraph saying "there are no posts".\<close>

definition no_posts_message :: jsstring where
  "no_posts_message =
     js ''<p>'' @ [0x6295, 0x7A3F, 0x304C, 0x3042, 0x308A, 0x307E, 0x305B, 0x3093, 0x3002]
     @ js ''</p>''"

text \<open>
  \<open>renderPosts\<close> (lines 275-301), applied to the reference of an array; the call
  without argument passes \<open>this.#state.posts\<close>. \<open>orElse s m\<close> is \<open>s || m\<close> for a
  string \<open>s\<close>: \<open>m\<close> exactly when \<open>s\<close> is the empty string. \<open>listing\<close> is the value
  assigned to \<open>container.innerHTML\<close> (line 300).
\<close>

definition postsHTML :: "host \<Rightarrow> post list \<Rightarrow> jsstring" where
  "postsHTML h ps = join (map (article h) ps)"

definition orElse :: "jsstring \<Rightarrow> jsstring \<Rightarrow> jsstring" where
  "orElse s m = (if s = [] then m else s)"

definition listing :: "host \<Rightarrow> post list \<Rightarrow> jsstring" where
  "listing h ps = orElse (postsHTML h ps) no_posts_message"

definition renderPosts :: "host \<Rightarrow> ref \<Rightarrow> world \<Rightarrow> world" where
  "renderPosts h a w =
     (case container w of
        None \<Rightarrow> w
      | Some old \<Rightarrow> w\<lparr>container := Some (listing h (cells w a))\<rparr>)"

text \<open>
  \<open>initializeCategories\<close> (lines 309-314): the set of the categories, in the order of
  their first occurrence. The select element that \<open>setupCategoryFilter\<close> builds is never
  inserted into the document, so the call leaves the page as it is.
\<close>

fun Set_of :: "jsstring list \<Rightarrow> jsstring list" where
  "Set_of [] = []"
| "Set_of (x # xs) = x # filter (\<lambda>y. y \<noteq> x) (Set_of xs)"

definition initializeCategories :: "world \<Rightarrow> world" where
  "initializeCategories w = w\<lparr>categories := Set_of (map category (stored w))\<rparr>"

subsection \<open>The first BlogPostManager: category filter, search, sort\<close>

text \<open>
  \<open>filterByCategory\<close> (lines 351-358). \<open>filteredPosts\<close> is the constant of the same
  name: the stored array itself for \<open>"all"\<close>, a filtered copy otherwise.
\<close>

definition filteredPosts :: "jsstring \<Rightarrow> world \<Rightarrow> ref \<times> world" where
  "filteredPosts c w =
     (if c = js ''all'' then (posts w, w)
      else Array_filter (\<lambda>p. category p = c) (posts w) w)"

definition filterByCategory :: "host \<Rightarrow> jsstring \<Rightarrow> world \<Rightarrow> world" where
  "filterByCategory h c w =
     (let w1 = w\<lparr>currentFilter := c\<rparr>;
          (a, w2) = filteredPosts c w1
      in renderPosts h a w2)"

text \<open>
  The \<open>input\<close> listener of \<open>setupSearchFeature\<close> (lines 370-378); \<open>v\<close> is
  \<open>e.target.value\<close>. \<open>matches\<close> is the arrow function given to \<open>filter\<close>, the same in
  \<open>filterAndRenderPosts\<close> of the simple draft (lines 1324-1326).
\<close>

definition matches :: "host \<Rightarrow> jsstring \<Rightarrow> post \<Rightarrow> bool" where
  "matches h term p =
     (str_includes (toLowerCase h (title p)) term \<or> str_includes (toLowerCase h (body p)) term)"

definition filtered :: "host \<Rightarrow> jsstring \<Rightarrow> world \<Rightarrow> ref \<times> world" where
  "filtered h v w = (let term = toLowerCase h v in Array_filter (matches h term) (posts w) w)"

definition searchInput :: "host \<Rightarrow> jsstring \<Rightarrow> world \<Rightarrow> world" where
  "searchInput h v w = (let (a, w1) = filtered h v w in renderPosts h a w1)"

text \<open>
  \<open>sortPosts\<close> (lines 415-422). \<open>dateB - dateA\<close> converts both dates to their time
  values; the difference of two time values is a number with the sign of the exact
  difference, and NaN as soon as one date is invalid.
\<close>

definition minus_num :: "int option \<Rightarrow> int option \<Rightarrow> int option" where
  "minus_num x y = (case (x, y) of (Some a, Some b) \<Rightarrow> Some (a - b) | _ \<Rightarrow> None)"

definition byDate :: "host \<Rightarrow> jsstring \<Rightarrow> post \<Rightarrow> post \<Rightarrow> int option" where
  "byDate h order a b =
     (let dateA = Date_value h (date a); dateB = Date_value h (date b)
      in if order = js ''newest'' then minus_num dateB dateA else minus_num dateA dateB)"

definition sorted_posts :: "host \<Rightarrow> world \<Rightarrow> ref \<times> world" where
  "sorted_posts h w =
     (let (c, w1) = spread (posts w) w in Array_sort h (byDate h (sortOrder w1)) c w1)"

definition sortPosts :: "host \<Rightarrow> world \<Rightarrow> world" where
  "sortPosts h w = (let (a, w1) = sorted_posts h w in renderPosts h a w1)"

text \<open>The \<open>change\<close> listener of \<open>setupSortingFeature\<close> (lines 398-401).\<close>

definition sortChange :: "host \<Rightarrow> jsstring \<Rightarrow> world \<Rightarrow> world" where
  "sortChange h v w = sortPosts h (w\<lparr>sortOrder := v\<rparr>)"

text \<open>The three controls, and a sequence of their events.\<close>

datatype event = CategoryChange jsstring | SearchInput jsstring | SortChange jsstring

fun handle :: "host \<Rightarrow> event \<Rightarrow> world \<Rightarrow> world" where
  "handle h (CategoryChange c) w = filterByCategory h c w"
| "handle h (SearchInput v) w = searchInput h v w"
| "handle h (SortChange v) w = sortChange h v w"

definition run :: "host \<Rightarrow> event list \<Rightarrow> world \<Rightarrow> world" where
  "run h es w = foldl (\<lambda>w e. handle h e w) w es"

subsection \<open>The simple BlogPostManager: detail view and search\<close>

text \<open>
  The last draft of the class (lines 1128-1348). Its constructor sets the two properties
  \<open>posts\<close> (here \<open>posts'\<close>, an array that no method of this draft reorders) and
  \<open>currentPost\<close>. Of the page, the draft also touches the children appended to
  \<open>document.body\<close> (\<open>modals\<close>); \<open>awaiting\<close> lists the requests that have been sent
  and have not settled yet.
\<close>

record comment =
  name :: jsstring
  body' :: jsstring
  email :: jsstring

record element =
  className :: jsstring
  innerHTML :: jsstring

record simple = page +
  posts' :: "post list"
  currentPost :: "post option"
  modals :: "element list"
  awaiting :: "jsstring list"

text \<open>\<open>renderComments\<close> (lines 1267-1279).\<close>

definition commentHTML :: "comment \<Rightarrow> jsstring" where
  "commentHTML c =
     js ''\<newline>      <div class=\"comment\">\<newline>        <h4>'' @ name c
     @ js ''</h4>\<newline>        <p>'' @ body' c
     @ js ''</p>\<newline>        <small>'' @ email c
     @ js ''</small>\<newline>      </div>\<newline>    ''"

definition renderComments :: "comment list \<Rightarrow> jsstring" where
  "renderComments comments = join (map commentHTML comments)"

text \<open>
  The template literal of \<open>renderPostsDetail\<close> (lines 1249-1261); the runs of code
  units are the caption "close" and the heading "comments".
\<close>

definition modalHTML :: "post \<Rightarrow> comment list \<Rightarrow> jsstring" where
  "modalHTML p comments =
     js ''\<newline>    <div class=\"modal-content\">\<newline>      <button class=\"close-modal\">''
     @ [0x9589, 0x3058, 0x308B]
     @ js ''</button>\<newline>      <article class=\"post-detail\">\<newline>        <h2>'' @ title p
     @ js ''</h2>\<newline>        <div class=\"post-content\">'' @ body p
     @ js ''</div>\<newline>        <div class=\"post-comments\">\<newline>          <h3>''
     @ [0x30B3, 0x30E1, 0x30F3, 0x30C8] @ js ''('' @ numberToString (int (length comments))
     @ js '')</h3>\<newline>          '' @ renderComments comments
     @ js ''\<newline>        </div>\<newline>      </article>\<newline>    </div>\<newline>    ''"

text \<open>
  \<open>this.document\<close> (line 1246). The instance has the own properties \<open>posts\<close> and
  \<open>currentPost\<close>, no method assigns another one, and its prototype chain holds the
  methods of the class and of \<open>Object.prototype\<close>; none is called \<open>document\<close>. The
  read yields \<open>undefined\<close> (\<open>None\<close>), whatever the state of the instance.
\<close>

definition this_document :: "simple \<Rightarrow> unit option" where
  "this_document m = None"

text \<open>
  \<open>renderPostsDetail\<close> (lines 1245-1265). Reading \<open>createElement\<close> of \<open>undefined\<close>
  raises a TypeError; with an object there, the new element gets its class name and its
  markup and is appended to \<open>document.body\<close>. \<open>setupModalEvents\<close> only registers
  listeners.
\<close>

definition renderPostsDetail :: "post \<Rightarrow> comment list \<Rightarrow> simple \<Rightarrow> js_error + simple" where
  "renderPostsDetail p comments m =
     (case this_document m of
        None \<Rightarrow> Inl TypeError
      | Some d \<Rightarrow>
          (let modal = \<lparr>className = js ''post-detail-modal'', innerHTML = modalHTML p comments\<rparr>
           in Inr (m\<lparr>modals := modals m @ [modal]\<rparr>)))"

text \<open>The message "post not found" (line 1231) and the label "detail view error"
  (line 1241).\<close>

definition not_found_message :: jsstring where
  "not_found_message =
     [0x6295, 0x7A3F, 0x304C, 0x898B, 0x3064, 0x304B, 0x308A, 0x307E, 0x305B, 0x3093]"

definition detail_error_label :: jsstring where
  "detail_error_label = [0x8A73, 0x7D30, 0x8868, 0x793A, 0x30A8, 0x30E9, 0x30FC]"

definition comments_url :: "int \<Rightarrow> jsstring" where
  "comments_url postId =
     js ''https://jsonplaceholder.typicode.com/posts/'' @ numberToString postId
     @ js ''/comments''"

text \<open>
  \<open>showPostDetail\<close> (lines 1227-1243), an async function, in two parts: up to the
  first \<open>await\<close> (the look-up, the thrown error, the request sent), and from the
  settlement of the request on (both awaits, then \<open>renderPostsDetail\<close>). An error
  thrown or a rejection awaited in either part reaches the \<open>catch\<close> block, which logs
  it. The \<open>ok\<close> flag of the response is not read.
\<close>

definition showPostDetail_start :: "int \<Rightarrow> simple \<Rightarrow> js_error + post \<times> simple" where
  "showPostDetail_start postId m =
     (case find (\<lambda>p. id' p = postId) (posts' m) of
        None \<Rightarrow> Inl (Error not_found_message)
      | Some p \<Rightarrow> Inr (p, m\<lparr>awaiting := awaiting m @ [comments_url postId]\<rparr>))"

definition showPostDetail_resume ::
  "int \<Rightarrow> post \<Rightarrow> comment list fetch_result \<Rightarrow> simple \<Rightarrow> js_error option \<times> simple" where
  "showPostDetail_resume postId p response m =
     (let m1 = m\<lparr>awaiting := remove1 (comments_url postId) (awaiting m)\<rparr>
      in case response of
           Failed \<Rightarrow> (Some NetworkError, m1)
         | Response ok data \<Rightarrow>
             (case data of
                Malformed \<Rightarrow> (Some SyntaxError, m1)
              | Data comments \<Rightarrow>
                  (case renderPostsDetail p comments m1 of
                     Inl error \<Rightarrow> (Some error, m1)
                   | Inr m2 \<Rightarrow> (None, m2))))"

definition catch_detail :: "js_error \<Rightarrow> simple \<Rightarrow> simple" where
  "catch_detail error m = m\<lparr>console := console m @ [(detail_error_label, error)]\<rparr>"

definition showPostDetail :: "int \<Rightarrow> comment list fetch_result \<Rightarrow> simple \<Rightarrow> simple" where
  "showPostDetail postId response m =
     (case showPostDetail_start postId m of
        Inl error \<Rightarrow> catch_detail error m
      | Inr (p, m1) \<Rightarrow>
          (case showPostDetail_resume postId p response m1 of
             (None, m2) \<Rightarrow> m2
           | (Some error, m2) \<Rightarrow> catch_detail error m2))"

text \<open>
  The states of the detail view are not a variable of the script; they are read off the
  page: \<open>Shown\<close> when a modal is in the document, \<open>Loading\<close> when none is and a
  request has not settled, \<open>Closed\<close> otherwise. \<open>detail_trace\<close> lists the states
  before the call, at the \<open>await\<close> if it is reached, and after the call.
\<close>

datatype detail_state = Closed | Loading | Shown

definition detail_view :: "simple \<Rightarrow> detail_state" where
  "detail_view m =
     (if modals m \<noteq> [] then Shown else if awaiting m \<noteq> [] then Loading else Closed)"

definition detail_trace :: "int \<Rightarrow> comment list fetch_result \<Rightarrow> simple \<Rightarrow> detail_state list" where
  "detail_trace postId response m =
     (case showPostDetail_start postId m of
        Inl error \<Rightarrow> [detail_view m, detail_view (showPostDetail postId response m)]
      | Inr (p, m1) \<Rightarrow>
          [detail_view m, detail_view m1, detail_view (showPostDetail postId response m)])"

text \<open>
  \<open>renderPosts\<close> of the simple draft (lines 1174-1202), here \<open>renderPosts'\<close>: the same
  markup for a post (the date is formatted in place, by the expression that
  \<open>utils.formatDate\<close> evaluates), and no fallback text. \<open>renderFilteredPosts\<close> (lines 1333-1347) with
  its panel saying "no search results were found", \<open>filterAndRenderPosts\<close>
  (lines 1322-1330), and the \<open>input\<close> listener of \<open>addSearchFeature\<close>
  (lines 1315-1318).
\<close>

definition renderPosts' :: "host \<Rightarrow> post list \<Rightarrow> simple \<Rightarrow> simple" where
  "renderPosts' h ps m =
     (case container m of
        None \<Rightarrow> m
      | Some old \<Rightarrow> m\<lparr>container := Some (postsHTML h ps)\<rparr>)"

definition no_results_panel :: jsstring where
  "no_results_panel =
     js ''\<newline>        <div class=\"no-results\">\<newline>          <p>''
     @ [0x691C, 0x7D22, 0x7D50, 0x679C, 0x304C, 0x898B, 0x3064, 0x304B, 0x308A, 0x307E, 0x305B,
        0x3093, 0x3067, 0x3057, 0x305F, 0x3002]
     @ js ''</p>\<newline>        </div>\<newline>      ''"

definition renderFilteredPosts :: "host \<Rightarrow> post list \<Rightarrow> simple \<Rightarrow> simple" where
  "renderFilteredPosts h ps m =
     (case container m of
        None \<Rightarrow> m
      | Some old \<Rightarrow>
          if length ps = 0 then m\<lparr>container := Some no_results_panel\<rparr>
          else renderPosts' h ps m)"

definition filterAndRenderPosts :: "host \<Rightarrow> jsstring \<Rightarrow> simple \<Rightarrow> simple" where
  "filterAndRenderPosts h searchTerm m =
     renderFilteredPosts h (filter (matches h searchTerm) (posts' m)) m"

definition searchInput' :: "host \<Rightarrow> jsstring \<Rightarrow> simple \<Rightarrow> simple" where
  "searchInput' h v m = filterAndRenderPosts h (toLowerCase h v) m"

subsection \<open>The combined view of the specification\<close>

text \<open>
  The specification describes one operation \<open>FilterSortEngine.apply(posts, viewState)\<close>
  that applies the category step, the search step and the sort step together. The script
  has no such function; \<open>apply_spec\<close> follows the words of the specification, to be
  compared with what the listeners display. \<open>time_of\<close> is the sort key: the time value
  of the date of a post (0 where the date is invalid).
\<close>

record view_state =
  activeCategory :: jsstring
  searchTerm :: jsstring
  order :: jsstring

definition time_of :: "host \<Rightarrow> post \<Rightarrow> int" where
  "time_of h p = (case Date_value h (date p) of Some t \<Rightarrow> t | None \<Rightarrow> 0)"

definition apply_spec :: "host \<Rightarrow> post list \<Rightarrow> view_state \<Rightarrow> post list" where
  "apply_spec h ps V =
     (let s1 = (if activeCategory V \<noteq> js ''all''
                then filter (\<lambda>p. category p = activeCategory V) ps else ps);
          s2 = (if searchTerm V \<noteq> []
                then filter (\<lambda>p. str_includes (toLowerCase h (title p)) (toLowerCase h (searchTerm V))
                                \<or> str_includes (toLowerCase h (body p)) (toLowerCase h (searchTerm V))) s1
                else s1)
      in if order V = js ''newest'' then sort_key (\<lambda>p. - time_of h p) s2
         else sort_key (time_of h) s2)"

subsection \<open>Concrete inputs\<close>

text \<open>
  A host whose \<open>toLowerCase\<close> folds the letters A to Z, whose date parser knows two
  days (as milliseconds since the epoch, UTC midnight) and whose sort leaves an array as
  it is when the comparator is not consistent; three posts, two of them with the same
  date and category; the first manager after a successful load of the three posts on a
  page that has the container (lemma \<open>sample_world_loaded\<close>); the simple manager
  holding the same posts.
\<close>

definition lowerASCII :: "jsstring \<Rightarrow> jsstring" where
  "lowerASCII s = map (\<lambda>c. if 0x41 \<le> c \<and> c \<le> 0x5A then c + 0x20 else c) s"

definition sample_dates :: "jsstring \<Rightarrow> int option" where
  "sample_dates s =
     (if s = js ''2024-01-01'' then Some 1704067200000
      else if s = js ''2024-03-05'' then Some 1709596800000
      else None)"

definition sample_host :: host where
  "sample_host =
     \<lparr>toLowerCase = lowerASCII, Date_value = sample_dates, toLocaleDateString = (\<lambda>t. []),
      engine_sort = (\<lambda>comparefn xs. xs)\<rparr>"

definition postA :: post where
  "postA = \<lparr>id' = 1, title = js ''Hello'', body = js ''First'', date = js ''2024-03-05'',
            author = js ''Aki'', category = js ''tech''\<rparr>"

definition postB :: post where
  "postB = \<lparr>id' = 2, title = js ''Garden'', body = js ''Tomato'', date = js ''2024-01-01'',
            author = js ''Aki'', category = js ''life''\<rparr>"

definition postC :: post where
  "postC = \<lparr>id' = 3, title = js ''Types'', body = js ''hello again'', date = js ''2024-03-05'',
            author = js ''Aki'', category = js ''tech''\<rparr>"

definition sample_world :: world where
  "sample_world =
     \<lparr>container = Some [], console = [], posts = 1, categories = [],
      currentFilter = js ''all'', sortOrder = js ''newest'',
      cells = (\<lambda>a. if a = 1 then [postA, postB, postC] else []), fresh = 2\<rparr>"

definition sample_simple :: simple where
  "sample_simple =
     \<lparr>container = Some [], console = [], posts' = [postA, postB, postC], currentPost = None,
      modals = [], awaiting = []\<rparr>"

section \<open>Strings and rendering\<close>

lemma js_Nil: "js [] = []"
  by (simp add: js_def)

lemma js_Cons: "js (c # s) = of_char c # js s"
  by (simp add: js_def)

lemmas js_eval = js_Nil js_Cons

lemmas sample_defs = lowerASCII_def sample_dates_def sample_host_def postA_def postB_def
  postC_def

text \<open>\<open>startsWith\<close> is the prefix test and \<open>str_includes\<close> the substring test.\<close>

lemma startsWith_iff: "startsWith s t \<longleftrightarrow> (\<exists>b. s = t @ b)"
  by (induction s t rule: startsWith.induct) auto

lemma str_includes_iff: "str_includes s t \<longleftrightarrow> (\<exists>a b. s = a @ t @ b)"
proof (induction s)
  case Nil
  then show ?case by auto
next
  case (Cons d s)
  show ?case
  proof
    assume "str_includes (d # s) t"
    then consider "startsWith (d # s) t" | "str_includes s t" by auto
    then show "\<exists>a b. d # s = a @ t @ b"
    proof cases
      case 1
      then obtain b where "d # s = t @ b" by (auto simp: startsWith_iff)
      then have "d # s = [] @ t @ b" by simp
      then show ?thesis by blast
    next
      case 2
      then obtain a b where "s = a @ t @ b" using Cons.IH by auto
      then have "d # s = (d # a) @ t @ b" by simp
      then show ?thesis by blast
    qed
  next
    assume "\<exists>a b. d # s = a @ t @ b"
    then obtain a b where ab: "d # s = a @ t @ b" by auto
    show "str_includes (d # s) t"
    proof (cases a)
      case Nil
      with ab have "startsWith (d # s) t" by (auto simp: startsWith_iff)
      then show ?thesis by simp
    next
      case (Cons e a')
      with ab have "s = a' @ t @ b" by simp
      then have "str_includes s t" using Cons.IH by blast
      then show ?thesis by simp
    qed
  qed
qed

lemma str_includes_empty: "str_includes s []"
  by (cases s) simp_all

lemma matches_iff:
  "matches h t p \<longleftrightarrow>
     (\<exists>x y. toLowerCase h (title p) = x @ t @ y) \<or> (\<exists>x y. toLowerCase h (body p) = x @ t @ y)"
  by (simp add: matches_def str_includes_iff)

lemma filter_matches:
  "filter (matches h t) ps =
     filter (\<lambda>p. (\<exists>x y. toLowerCase h (title p) = x @ t @ y)
                \<or> (\<exists>x y. toLowerCase h (body p) = x @ t @ y)) ps"
  by (rule filter_cong) (simp_all add: matches_iff)

lemma filter_matches_empty: "filter (matches h []) ps = ps"
  by (simp add: matches_def str_includes_empty)

text \<open>The markup of a post is never the empty string, so the listing never is.\<close>

lemma article_not_empty: "article h p \<noteq> []"
  by (simp add: article_def js_eval)

lemma postsHTML_Nil: "postsHTML h [] = []"
  by (simp add: postsHTML_def join_def)

lemma postsHTML_Cons: "postsHTML h (p # ps) = article h p @ postsHTML h ps"
  by (simp add: postsHTML_def join_def)

lemma postsHTML_empty_iff: "postsHTML h ps = [] \<longleftrightarrow> ps = []"
  by (cases ps) (simp_all add: postsHTML_Nil postsHTML_Cons article_not_empty)

lemma listing_Nil: "listing h [] = no_posts_message"
  by (simp add: listing_def orElse_def postsHTML_Nil)

lemma listing_Cons: "listing h (p # ps) = article h p @ postsHTML h ps"
  by (simp add: listing_def orElse_def postsHTML_Cons article_not_empty)

lemma no_posts_message_not_empty: "no_posts_message \<noteq> []"
  by (simp add: no_posts_message_def js_eval)

lemma no_results_panel_not_empty: "no_results_panel \<noteq> []"
  by (simp add: no_results_panel_def js_eval)

lemma listing_not_empty: "listing h ps \<noteq> []"
  by (cases ps)
     (simp_all add: listing_Nil listing_Cons no_posts_message_not_empty article_not_empty)

section \<open>What each listener displays\<close>

lemma renderPosts_container:
  "container w = Some old \<Longrightarrow> container (renderPosts h a w) = Some (listing h (cells w a))"
  by (simp add: renderPosts_def)

lemma renderPosts_same:
  "posts (renderPosts h a w) = posts w" "cells (renderPosts h a w) = cells w"
  "fresh (renderPosts h a w) = fresh w"
  by (simp_all add: renderPosts_def split: option.splits)

lemma filteredPosts_cells:
  "filteredPosts c w = (a, w') \<Longrightarrow>
   cells w' a = (if c = js ''all'' then stored w else filter (\<lambda>p. category p = c) (stored w))"
  by (auto simp: filteredPosts_def Array_filter_def alloc_def stored_def split: if_splits)

lemma filtered_cells:
  "filtered h v w = (a, w') \<Longrightarrow> cells w' a = filter (matches h (toLowerCase h v)) (stored w)"
  by (auto simp: filtered_def Array_filter_def alloc_def stored_def Let_def)

lemma sorted_posts_cells:
  "sorted_posts h w = (a, w') \<Longrightarrow> cells w' a = sortList h (byDate h (sortOrder w)) (stored w)"
  by (auto simp: sorted_posts_def spread_def alloc_def Array_sort_def stored_def Let_def)

lemma filterByCategory_view:
  "container w = Some old \<Longrightarrow>
   container (filterByCategory h c w) =
     Some (listing h (if c = js ''all'' then stored w else filter (\<lambda>p. category p = c) (stored w)))"
  by (simp add: filterByCategory_def filteredPosts_def Array_filter_def alloc_def
      renderPosts_def stored_def Let_def)

lemma searchInput_view:
  "container w = Some old \<Longrightarrow>
   container (searchInput h v w) =
     Some (listing h (filter (matches h (toLowerCase h v)) (stored w)))"
  by (simp add: searchInput_def filtered_def Array_filter_def alloc_def
      renderPosts_def stored_def Let_def)

lemma sortChange_view:
  "container w = Some old \<Longrightarrow>
   container (sortChange h v w) = Some (listing h (sortList h (byDate h v) (stored w)))"
  by (simp add: sortChange_def sortPosts_def sorted_posts_def spread_def Array_sort_def alloc_def
      renderPosts_def stored_def Let_def)

lemma sortPosts_view:
  "container w = Some old \<Longrightarrow>
   container (sortPosts h w) = Some (listing h (sortList h (byDate h (sortOrder w)) (stored w)))"
  by (simp add: sortPosts_def sorted_posts_def spread_def Array_sort_def alloc_def
      renderPosts_def stored_def Let_def)

lemma handle_state:
  "currentFilter (filterByCategory h c w) = c" "sortOrder (filterByCategory h c w) = sortOrder w"
  "currentFilter (searchInput h v w) = currentFilter w" "sortOrder (searchInput h v w) = sortOrder w"
  "currentFilter (sortChange h v w) = currentFilter w" "sortOrder (sortChange h v w) = v"
  by (simp_all add: filterByCategory_def filteredPosts_def searchInput_def filtered_def
      sortChange_def sortPosts_def sorted_posts_def spread_def Array_sort_def Array_filter_def
      alloc_def renderPosts_def Let_def split: option.splits)

lemma handle_container: "container (handle h e w) \<noteq> None \<longleftrightarrow> container w \<noteq> None"
  by (cases e)
     (simp_all add: filterByCategory_def filteredPosts_def searchInput_def filtered_def
      sortChange_def sortPosts_def sorted_posts_def spread_def Array_sort_def Array_filter_def
      alloc_def renderPosts_def Let_def split: option.splits)

text \<open>No listener writes the stored array or any array that existed before the event.\<close>

lemma handle_frame:
  "posts (handle h e w) = posts w \<and> fresh w \<le> fresh (handle h e w)
   \<and> (\<forall>b. b < fresh w \<longrightarrow> cells (handle h e w) b = cells w b)"
proof (cases e)
  case (CategoryChange c)
  then show ?thesis
    by (simp add: filterByCategory_def filteredPosts_def Array_filter_def alloc_def
        renderPosts_same Let_def)
next
  case (SearchInput v)
  then show ?thesis
    by (simp add: searchInput_def filtered_def Array_filter_def alloc_def renderPosts_same Let_def)
next
  case (SortChange v)
  then show ?thesis
    by (simp add: sortChange_def sortPosts_def sorted_posts_def spread_def Array_sort_def
        alloc_def renderPosts_same Let_def)
qed

lemma run_frame:
  "posts (run h es w) = posts w \<and> fresh w \<le> fresh (run h es w)
   \<and> (\<forall>b. b < fresh w \<longrightarrow> cells (run h es w) b = cells w b)"
proof (induction es arbitrary: w)
  case Nil
  then show ?case by (simp add: run_def)
next
  case (Cons e es)
  have step: "run h (e # es) w = run h es (handle h e w)" by (simp add: run_def)
  from handle_frame [of h e w] Cons.IH [of "handle h e w"] show ?case
    unfolding step by auto
qed

text \<open>
  The stored array is an allocated one in every state the script reaches: in the state of
  a new manager, after a load, and after every event.
\<close>

lemma allocated_initial: "posts (initial pg) < fresh (initial pg)"
  by (simp add: initial_def)

lemma allocated_fetchPosts: "fetchPosts now response w = Stored w' \<Longrightarrow> posts w' < fresh w'"
  by (auto simp: fetchPosts_def fetchPosts_try_def alloc_def Let_def
      split: sum.splits fetch_result.splits json_body.splits posts_data.splits if_splits)

lemma allocated_handle: "posts w < fresh w \<Longrightarrow> posts (handle h e w) < fresh (handle h e w)"
  using handle_frame [of h e w] by simp

lemma handle_stored: "posts w < fresh w \<Longrightarrow> stored (handle h e w) = stored w"
  using handle_frame [of h e w] by (simp add: stored_def)

lemma stored_sortOrder: "stored (w\<lparr>sortOrder := v\<rparr>) = stored w"
  by (simp add: stored_def)

lemma sample_world_loaded:
  "fetchPosts (js ''2024-03-06T00:00:00.000Z'')
     (Response True (Data (PostsArray [postA, postB, postC])))
     (initial \<lparr>container = Some [], console = []\<rparr>) = Stored sample_world"
  by (simp add: fetchPosts_def fetchPosts_try_def alloc_def initial_def sample_world_def
      fun_upd_def)

lemma sample_stored: "stored sample_world = [postA, postB, postC]"
  by (simp add: sample_world_def stored_def)

lemma sample_container: "container sample_world = Some []"
  by (simp add: sample_world_def)

lemma sample_allocated: "posts sample_world < fresh sample_world"
  by (simp add: sample_world_def)

lemma sample_settings:
  "sortOrder sample_world = js ''newest''" "currentFilter sample_world = js ''all''"
  by (simp_all add: sample_world_def)

lemma sample_simple_page:
  "container sample_simple = Some []" "posts' sample_simple = [postA, postB, postC]"
  by (simp_all add: sample_simple_def)

lemma tech_not_all: "js ''tech'' \<noteq> js ''all''"
  by (simp add: js_eval)

lemma sample_tech: "filter (\<lambda>p. category p = js ''tech'') [postA, postB, postC] = [postA, postC]"
  by (simp add: sample_defs js_eval)

lemma sample_hello:
  "filter (matches sample_host (toLowerCase sample_host (js ''HELLO''))) [postA, postB, postC]
     = [postA, postC]"
  by (simp add: matches_def sample_defs js_eval)

section \<open>The date sort\<close>

text \<open>
  Insertion keeps every element. Where the comparator agrees with the order of a key,
  \<open>insertionSort\<close> is the stable insertion sort of the library on that key. With valid
  dates the comparator of \<open>sortPosts\<close> is consistent and agrees with the time value,
  negated for \<open>"newest"\<close>.
\<close>

lemma mset_insertSorted: "mset (insertSorted c x ys) = add_mset x (mset ys)"
  by (induction ys) simp_all

lemma mset_insertionSort: "mset (insertionSort c xs) = mset xs"
  by (induction xs) (simp_all add: insertionSort_def mset_insertSorted)

lemma insertSorted_insort_key:
  "(\<forall>y \<in> set ys. SortCompare c x y \<le> 0 \<longleftrightarrow> f x \<le> f y) \<Longrightarrow>
   insertSorted c x ys = insort_key f x ys"
  by (induction ys) auto

lemma insertionSort_sort_key:
  fixes f :: "'a \<Rightarrow> int"
  assumes "\<forall>x \<in> set xs. \<forall>y \<in> set xs. SortCompare c x y \<le> 0 \<longleftrightarrow> f x \<le> f y"
  shows "insertionSort c xs = sort_key f xs"
  using assms
proof (induction xs)
  case Nil
  then show ?case by (simp add: insertionSort_def)
next
  case (Cons x xs)
  have IH: "insertionSort c xs = sort_key f xs" using Cons by simp
  have "insertionSort c (x # xs) = insertSorted c x (insertionSort c xs)"
    by (simp add: insertionSort_def)
  also have "\<dots> = insertSorted c x (sort_key f xs)" by (simp add: IH)
  also have "\<dots> = insort_key f x (sort_key f xs)"
    using Cons.prems by (intro insertSorted_insort_key) simp
  finally show ?case by simp
qed

lemma byDate_value:
  "Date_value h (date x) = Some s \<Longrightarrow> Date_value h (date y) = Some t \<Longrightarrow>
   byDate h v x y = Some (if v = js ''newest'' then t - s else s - t)"
  by (simp add: byDate_def minus_num_def Let_def)

lemma byDate_consistent:
  assumes "\<forall>p \<in> set ps. Date_value h (date p) \<noteq> None"
  shows "consistent (byDate h v) ps"
proof -
  let ?f = "byDate h v"
  have "?f a b \<noteq> None \<and> eqCF ?f a a
      \<and> (eqCF ?f a b \<longrightarrow> eqCF ?f b a)
      \<and> (eqCF ?f a b \<and> eqCF ?f b c \<longrightarrow> eqCF ?f a c)
      \<and> (ltCF ?f a b \<and> ltCF ?f b c \<longrightarrow> ltCF ?f a c)
      \<and> (gtCF ?f a b \<and> gtCF ?f b c \<longrightarrow> gtCF ?f a c)"
    if mem: "a \<in> set ps" "b \<in> set ps" "c \<in> set ps" for a b c
  proof -
    obtain r where r: "Date_value h (date a) = Some r"
      using assms mem(1) by auto
    obtain s where s: "Date_value h (date b) = Some s"
      using assms mem(2) by auto
    obtain t where t: "Date_value h (date c) = Some t"
      using assms mem(3) by auto
    from r s t show ?thesis
      by (simp add: byDate_value eqCF_def ltCF_def gtCF_def)
  qed
  then show ?thesis
    unfolding consistent_def list_all_iff by blast
qed

lemma sortList_valid:
  "\<forall>p \<in> set ps. Date_value h (date p) \<noteq> None \<Longrightarrow>
   sortList h (byDate h v) ps = insertionSort (byDate h v) ps"
  by (simp add: sortList_def byDate_consistent)

lemma byDate_newest:
  "Date_value h (date x) \<noteq> None \<Longrightarrow> Date_value h (date y) \<noteq> None \<Longrightarrow>
   SortCompare (byDate h (js ''newest'')) x y \<le> 0 \<longleftrightarrow> - time_of h x \<le> - time_of h y"
  by (auto simp: SortCompare_def byDate_def minus_num_def time_of_def Let_def)

lemma byDate_oldest:
  "v \<noteq> js ''newest'' \<Longrightarrow> Date_value h (date x) \<noteq> None \<Longrightarrow> Date_value h (date y) \<noteq> None \<Longrightarrow>
   SortCompare (byDate h v) x y \<le> 0 \<longleftrightarrow> time_of h x \<le> time_of h y"
  by (auto simp: SortCompare_def byDate_def minus_num_def time_of_def Let_def)

lemma sortList_byDate:
  assumes "\<forall>p \<in> set ps. Date_value h (date p) \<noteq> None"
  shows "sortList h (byDate h v) ps =
         (if v = js ''newest'' then sort_key (\<lambda>p. - time_of h p) ps
          else sort_key (time_of h) ps)"
proof (cases "v = js ''newest''")
  case True
  have "insertionSort (byDate h (js ''newest'')) ps = sort_key (\<lambda>p. - time_of h p) ps"
    using assms by (intro insertionSort_sort_key ballI byDate_newest) blast+
  with True show ?thesis by (simp add: sortList_valid [OF assms])
next
  case False
  have "insertionSort (byDate h v) ps = sort_key (time_of h) ps"
    using assms False by (intro insertionSort_sort_key ballI byDate_oldest) blast+
  with False show ?thesis by (simp add: sortList_valid [OF assms])
qed

lemma sortList_byDate_stable:
  assumes "\<forall>p \<in> set ps. Date_value h (date p) \<noteq> None"
  shows "filter (\<lambda>p. Date_value h (date p) = Some t) (sortList h (byDate h v) ps) =
         filter (\<lambda>p. Date_value h (date p) = Some t) ps"
proof -
  have key: "\<And>p. p \<in> set ps \<Longrightarrow> (Date_value h (date p) = Some t) = (time_of h p = t)"
    using assms by (auto simp: time_of_def split: option.splits)
  have key': "\<And>p. p \<in> set ps \<Longrightarrow> (Date_value h (date p) = Some t) = (- time_of h p = - t)"
    using key by simp
  show ?thesis
  proof (cases "v = js ''newest''")
    case True
    let ?s = "sort_key (\<lambda>p. - time_of h p) ps"
    have "filter (\<lambda>p. Date_value h (date p) = Some t) ?s = filter (\<lambda>p. - time_of h p = - t) ?s"
      by (rule filter_cong) (simp_all add: key')
    also have "\<dots> = filter (\<lambda>p. - time_of h p = - t) ps"
      by (rule sort_key_stable)
    also have "\<dots> = filter (\<lambda>p. Date_value h (date p) = Some t) ps"
      by (rule filter_cong) (simp_all add: key')
    finally show ?thesis using True assms by (simp add: sortList_byDate)
  next
    case False
    let ?s = "sort_key (time_of h) ps"
    have "filter (\<lambda>p. Date_value h (date p) = Some t) ?s = filter (\<lambda>p. time_of h p = t) ?s"
      by (rule filter_cong) (simp_all add: key)
    also have "\<dots> = filter (\<lambda>p. time_of h p = t) ps"
      by (rule sort_key_stable)
    also have "\<dots> = filter (\<lambda>p. Date_value h (date p) = Some t) ps"
      by (rule filter_cong) (simp_all add: key)
    finally show ?thesis using False assms by (simp add: sortList_byDate)
  qed
qed

text \<open>
  Whatever the dates, the sorted array holds every stored post once, as long as the
  engine's own order is a rearrangement of the array.
\<close>

lemma mset_sortList:
  "mset (engine_sort h comparefn xs) = mset xs \<Longrightarrow> mset (sortList h comparefn xs) = mset xs"
  by (simp add: sortList_def mset_insertionSort)

lemma sample_dates_valid: "\<forall>p \<in> set [postA, postB, postC]. Date_value sample_host (date p) \<noteq> None"
  by (simp add: sample_defs js_eval)

lemma sample_sorted_oldest:
  "sortList sample_host (byDate sample_host (js ''oldest'')) [postA, postB, postC]
     = [postB, postA, postC]"
  unfolding sortList_valid [OF sample_dates_valid]
  by (simp add: insertionSort_def SortCompare_def byDate_def minus_num_def sample_defs js_eval
      Let_def)

lemma oldest_not_newest: "js ''oldest'' \<noteq> js ''newest''"
  by (simp add: js_eval)

lemma sample_sort_key_oldest:
  "sort_key (time_of sample_host) [postA, postB, postC] = [postB, postA, postC]"
proof -
  have eq: "sortList sample_host (byDate sample_host (js ''oldest'')) [postA, postB, postC]
      = sort_key (time_of sample_host) [postA, postB, postC]"
    by (simp only: sortList_byDate [OF sample_dates_valid] oldest_not_newest if_False)
  show ?thesis
    unfolding eq [symmetric] by (rule sample_sorted_oldest)
qed

lemma sample_engine: "\<forall>comparefn xs. mset (engine_sort sample_host comparefn xs) = mset xs"
  by (simp add: sample_host_def)

lemma sample_sorted_newest:
  "sortList sample_host (byDate sample_host (js ''newest'')) [postA, postB, postC]
     = [postA, postC, postB]"
  unfolding sortList_valid [OF sample_dates_valid]
  by (simp add: insertionSort_def SortCompare_def byDate_def minus_num_def sample_defs js_eval
      Let_def)

section \<open>Category filter\<close>

text \<open>
  C4. For every stored collection and every category \<open>c\<close> other than \<open>"all"\<close>, the
  array \<open>filteredPosts\<close> of \<open>filterByCategory\<close> holds exactly the stored posts whose
  category is the same string as \<open>c\<close> (the same code units, so upper and lower case
  differ), in their stored order; for \<open>"all"\<close> it is the stored array itself. That array
  is what the container then shows.
\<close>

theorem category_filter_exact_match:
  "filteredPosts c w = (a, w') \<Longrightarrow>
   (c \<noteq> js ''all'' \<longrightarrow>
      cells w' a = filter (\<lambda>p. category p = c) (stored w)
      \<and> (\<forall>p. p \<in> set (cells w' a) \<longleftrightarrow> p \<in> set (stored w) \<and> category p = c))
   \<and> (c = js ''all'' \<longrightarrow> a = posts w \<and> w' = w \<and> cells w' a = stored w)
   \<and> (container w = Some old \<longrightarrow>
        container (filterByCategory h c w) = Some (listing h (cells w' a)))"
proof -
  assume run: "filteredPosts c w = (a, w')"
  have c: "cells w' a = (if c = js ''all'' then stored w else filter (\<lambda>p. category p = c) (stored w))"
    using run by (rule filteredPosts_cells)
  have all: "c = js ''all'' \<longrightarrow> a = posts w \<and> w' = w"
    using run by (auto simp: filteredPosts_def)
  have view: "container w = Some old \<longrightarrow>
      container (filterByCategory h c w) = Some (listing h (cells w' a))"
    by (simp add: filterByCategory_view c)
  show ?thesis
    using c all view by auto
qed

theorem category_filter_exact_match_witness:
  "cells (snd (filteredPosts (js ''tech'') sample_world)) (fst (filteredPosts (js ''tech'') sample_world))
     = [postA, postC]
   \<and> filter (\<lambda>p. category p = js ''Tech'') (stored sample_world) = []
   \<and> cells (snd (filteredPosts (js ''all'') sample_world)) (fst (filteredPosts (js ''all'') sample_world))
     = [postA, postB, postC]
   \<and> container (filterByCategory sample_host (js ''tech'') sample_world)
     = Some (listing sample_host [postA, postC])"
proof -
  let ?a = "fst (filteredPosts (js ''tech'') sample_world)"
  let ?w = "snd (filteredPosts (js ''tech'') sample_world)"
  let ?b = "fst (filteredPosts (js ''all'') sample_world)"
  let ?u = "snd (filteredPosts (js ''all'') sample_world)"
  note tech = category_filter_exact_match [of "js ''tech''" sample_world ?a ?w "[]" sample_host,
      OF prod.collapse [symmetric]]
  note all = category_filter_exact_match [of "js ''all''" sample_world ?b ?u "[]" sample_host,
      OF prod.collapse [symmetric]]
  have "cells ?w ?a = filter (\<lambda>p. category p = js ''tech'') (stored sample_world)"
    using tech tech_not_all by blast
  then have 1: "cells ?w ?a = [postA, postC]"
    by (simp only: sample_stored sample_tech)
  have 2: "filter (\<lambda>p. category p = js ''Tech'') (stored sample_world) = []"
    by (simp add: sample_stored sample_defs js_eval)
  have "cells ?u ?b = stored sample_world"
    using all by blast
  then have 3: "cells ?u ?b = [postA, postB, postC]"
    by (simp only: sample_stored)
  have "container (filterByCategory sample_host (js ''tech'') sample_world)
      = Some (listing sample_host (cells ?w ?a))"
    using tech sample_container by blast
  then have 4: "container (filterByCategory sample_host (js ''tech'') sample_world)
      = Some (listing sample_host [postA, postC])"
    by (simp only: 1)
  show ?thesis
    using 1 2 3 4 by blast
qed

section \<open>Search\<close>

text \<open>
  C5. For every stored collection and every value \<open>v\<close> of the search field, the array
  \<open>filtered\<close> of the search listener holds exactly the stored posts for which the
  lower-cased \<open>v\<close> is a substring of the lower-cased title or of the lower-cased body, in
  their stored order; the simple draft hands the same selection to
  \<open>renderFilteredPosts\<close>. With the empty value, which \<open>toLowerCase\<close> leaves empty, every
  post is retained.
\<close>

theorem search_case_folded_substring:
  "filtered h v w = (a, w') \<Longrightarrow>
   cells w' a =
     filter (\<lambda>p. (\<exists>x y. toLowerCase h (title p) = x @ toLowerCase h v @ y)
                \<or> (\<exists>x y. toLowerCase h (body p) = x @ toLowerCase h v @ y)) (stored w)
   \<and> searchInput' h v m =
     renderFilteredPosts h
       (filter (\<lambda>p. (\<exists>x y. toLowerCase h (title p) = x @ toLowerCase h v @ y)
                  \<or> (\<exists>x y. toLowerCase h (body p) = x @ toLowerCase h v @ y)) (posts' m)) m
   \<and> (v = [] \<and> toLowerCase h [] = [] \<longrightarrow>
        cells w' a = stored w \<and> searchInput' h v m = renderFilteredPosts h (posts' m) m)
   \<and> (container w = Some old \<longrightarrow>
        container (searchInput h v w) = Some (listing h (cells w' a)))"
proof -
  assume run: "filtered h v w = (a, w')"
  have c: "cells w' a = filter (matches h (toLowerCase h v)) (stored w)"
    using run by (rule filtered_cells)
  have s: "searchInput' h v m =
      renderFilteredPosts h (filter (matches h (toLowerCase h v)) (posts' m)) m"
    by (simp add: searchInput'_def filterAndRenderPosts_def)
  have e: "v = [] \<and> toLowerCase h [] = [] \<longrightarrow>
      cells w' a = stored w \<and> searchInput' h v m = renderFilteredPosts h (posts' m) m"
    using c s by (auto simp: filter_matches_empty)
  have view: "container w = Some old \<longrightarrow>
      container (searchInput h v w) = Some (listing h (cells w' a))"
    by (simp add: searchInput_view c)
  show ?thesis
    using c s e view by (simp only: filter_matches simp_thms)
qed

theorem search_case_folded_substring_witness:
  "cells (snd (filtered sample_host (js ''HELLO'') sample_world))
     (fst (filtered sample_host (js ''HELLO'') sample_world)) = [postA, postC]
   \<and> toLowerCase sample_host [] = []
   \<and> cells (snd (filtered sample_host [] sample_world))
     (fst (filtered sample_host [] sample_world)) = [postA, postB, postC]
   \<and> container (searchInput sample_host (js ''HELLO'') sample_world)
     = Some (listing sample_host [postA, postC])"
proof -
  let ?a = "fst (filtered sample_host (js ''HELLO'') sample_world)"
  let ?w = "snd (filtered sample_host (js ''HELLO'') sample_world)"
  let ?b = "fst (filtered sample_host [] sample_world)"
  let ?u = "snd (filtered sample_host [] sample_world)"
  note hello = search_case_folded_substring [of sample_host "js ''HELLO''" sample_world ?a ?w
      sample_simple "[]", OF prod.collapse [symmetric]]
  note empty = search_case_folded_substring [of sample_host "[]" sample_world ?b ?u
      sample_simple "[]", OF prod.collapse [symmetric]]
  have lo: "toLowerCase sample_host [] = []"
    by (simp add: sample_defs)
  have "cells ?w ?a =
      filter (\<lambda>p. (\<exists>x y. toLowerCase sample_host (title p) = x @ toLowerCase sample_host (js ''HELLO'') @ y)
                \<or> (\<exists>x y. toLowerCase sample_host (body p) = x @ toLowerCase sample_host (js ''HELLO'') @ y))
        (stored sample_world)"
    using hello by blast
  then have 1: "cells ?w ?a = [postA, postC]"
    by (simp only: filter_matches [symmetric] sample_stored sample_hello)
  have "cells ?u ?b = stored sample_world"
    using empty lo by blast
  then have 2: "cells ?u ?b = [postA, postB, postC]"
    by (simp only: sample_stored)
  have "container (searchInput sample_host (js ''HELLO'') sample_world)
      = Some (listing sample_host (cells ?w ?a))"
    using hello sample_container by blast
  then have 3: "container (searchInput sample_host (js ''HELLO'') sample_world)
      = Some (listing sample_host [postA, postC])"
    by (simp only: 1)
  show ?thesis
    using 1 lo 2 3 by blast
qed

section \<open>Stability of the date sort\<close>

text \<open>
  C6. For every stored collection whose dates are valid and for every sort order
  (\<open>"newest"\<close>, and \<open>"oldest"\<close> or any other value), the posts of any one time value
  stand in the sorted array \<open>sorted_posts\<close> of \<open>sortPosts\<close> in the order they have in the
  stored array: two posts with equal dates keep their relative order.
\<close>

theorem date_sort_stable:
  "\<forall>p \<in> set (stored w). Date_value h (date p) \<noteq> None \<Longrightarrow> sorted_posts h w = (a, w') \<Longrightarrow>
   filter (\<lambda>p. Date_value h (date p) = Some t) (cells w' a) =
   filter (\<lambda>p. Date_value h (date p) = Some t) (stored w)"
  by (simp add: sorted_posts_cells sortList_byDate_stable)

theorem date_sort_stable_witness:
  "map (\<lambda>p. Date_value sample_host (date p)) (stored sample_world)
     = [Some 1709596800000, Some 1704067200000, Some 1709596800000]
   \<and> cells (snd (sorted_posts sample_host sample_world)) (fst (sorted_posts sample_host sample_world))
     = [postA, postC, postB]
   \<and> cells (snd (sorted_posts sample_host (sample_world\<lparr>sortOrder := js ''oldest''\<rparr>)))
       (fst (sorted_posts sample_host (sample_world\<lparr>sortOrder := js ''oldest''\<rparr>)))
     = [postB, postA, postC]
   \<and> filter (\<lambda>p. Date_value sample_host (date p) = Some 1709596800000)
       (cells (snd (sorted_posts sample_host sample_world))
         (fst (sorted_posts sample_host sample_world)))
     = [postA, postC]
   \<and> filter (\<lambda>p. Date_value sample_host (date p) = Some 1709596800000)
       (cells (snd (sorted_posts sample_host (sample_world\<lparr>sortOrder := js ''oldest''\<rparr>)))
         (fst (sorted_posts sample_host (sample_world\<lparr>sortOrder := js ''oldest''\<rparr>))))
     = [postA, postC]"
proof -
  let ?o = "sample_world\<lparr>sortOrder := js ''oldest''\<rparr>"
  let ?a = "fst (sorted_posts sample_host sample_world)"
  let ?w = "snd (sorted_posts sample_host sample_world)"
  let ?b = "fst (sorted_posts sample_host ?o)"
  let ?u = "snd (sorted_posts sample_host ?o)"
  have valid: "\<forall>p \<in> set (stored sample_world). Date_value sample_host (date p) \<noteq> None"
    using sample_dates_valid by (simp only: sample_stored)
  have valid': "\<forall>p \<in> set (stored ?o). Date_value sample_host (date p) \<noteq> None"
    using valid by (simp only: stored_sortOrder)
  have f: "filter (\<lambda>p. Date_value sample_host (date p) = Some 1709596800000) [postA, postB, postC]
      = [postA, postC]"
    by (simp add: sample_defs js_eval)
  have "cells ?w ?a = sortList sample_host (byDate sample_host (sortOrder sample_world)) (stored sample_world)"
    by (rule sorted_posts_cells [OF prod.collapse [symmetric]])
  then have 1: "cells ?w ?a = [postA, postC, postB]"
    by (simp only: sample_stored sample_settings sample_sorted_newest)
  have "cells ?u ?b = sortList sample_host (byDate sample_host (sortOrder ?o)) (stored ?o)"
    by (rule sorted_posts_cells [OF prod.collapse [symmetric]])
  then have 2: "cells ?u ?b = [postB, postA, postC]"
    by (simp add: stored_sortOrder sample_stored sample_sorted_oldest)
  have 3: "filter (\<lambda>p. Date_value sample_host (date p) = Some 1709596800000) (cells ?w ?a)
      = [postA, postC]"
    using date_sort_stable [OF valid prod.collapse [symmetric], of 1709596800000]
    by (simp only: sample_stored f)
  have 4: "filter (\<lambda>p. Date_value sample_host (date p) = Some 1709596800000) (cells ?u ?b)
      = [postA, postC]"
    using date_sort_stable [OF valid' prod.collapse [symmetric], of 1709596800000]
    by (simp only: stored_sortOrder sample_stored f)
  have 0: "map (\<lambda>p. Date_value sample_host (date p)) (stored sample_world)
      = [Some 1709596800000, Some 1704067200000, Some 1709596800000]"
    by (simp add: sample_stored sample_defs js_eval)
  show ?thesis
    using 0 1 2 3 4 by blast
qed

section \<open>The stored posts are not written\<close>

text \<open>
  C9. Whatever sequence of category changes, search inputs and sort changes is handled,
  \<open>this.#state.posts\<close> refers to the same array afterwards and that array has the same
  elements in the same order; no array that existed before is written either. The
  category filter for a category other than \<open>"all"\<close>, the search and the sort work on
  an array of their own, not the stored one (the filters allocate their result, the sort
  reorders a spread copy); for \<open>"all"\<close> the stored array itself is handed to
  \<open>renderPosts\<close>, which only reads it. The stored array is an allocated one: its
  reference is below \<open>fresh\<close>.
\<close>

theorem stored_posts_never_mutated:
  "posts w < fresh w \<Longrightarrow>
   posts (run h es w) = posts w \<and> stored (run h es w) = stored w
   \<and> (\<forall>b. b < fresh w \<longrightarrow> cells (run h es w) b = cells w b)
   \<and> (c \<noteq> js ''all'' \<longrightarrow> fst (filteredPosts c w) \<noteq> posts w)
   \<and> (c = js ''all'' \<longrightarrow> fst (filteredPosts c w) = posts w)
   \<and> fst (filtered h v w) \<noteq> posts w
   \<and> fst (sorted_posts h w) \<noteq> posts w"
proof -
  assume allocated: "posts w < fresh w"
  have new: "fst (filtered h v w) = fresh w" "fst (sorted_posts h w) = fresh w"
    "c \<noteq> js ''all'' \<longrightarrow> fst (filteredPosts c w) = fresh w"
    by (simp_all add: filtered_def sorted_posts_def filteredPosts_def Array_filter_def
        spread_def Array_sort_def alloc_def Let_def)
  have same: "c = js ''all'' \<longrightarrow> fst (filteredPosts c w) = posts w"
    by (simp add: filteredPosts_def)
  show ?thesis
    using run_frame [of h es w] allocated new same by (simp add: stored_def)
qed

theorem stored_posts_never_mutated_witness:
  "posts sample_world < fresh sample_world
   \<and> stored (run sample_host
        [CategoryChange (js ''tech''), SearchInput (js ''HELLO''), SortChange (js ''oldest'')]
        sample_world) = [postA, postB, postC]
   \<and> posts (run sample_host
        [CategoryChange (js ''tech''), SearchInput (js ''HELLO''), SortChange (js ''oldest'')]
        sample_world) = posts sample_world"
proof -
  note frame = stored_posts_never_mutated [OF sample_allocated, of sample_host
      "[CategoryChange (js ''tech''), SearchInput (js ''HELLO''), SortChange (js ''oldest'')]"]
  have "stored (run sample_host
        [CategoryChange (js ''tech''), SearchInput (js ''HELLO''), SortChange (js ''oldest'')]
        sample_world) = stored sample_world"
    using frame by blast
  then have 1: "stored (run sample_host
        [CategoryChange (js ''tech''), SearchInput (js ''HELLO''), SortChange (js ''oldest'')]
        sample_world) = [postA, postB, postC]"
    by (simp only: sample_stored)
  show ?thesis
    using sample_allocated 1 frame by blast
qed

section \<open>The three controls do not compose\<close>

text \<open>
  C1, as the specification states it, fails: after the category \<open>"tech"\<close> has been
  chosen, choosing the order \<open>"oldest"\<close> shows all three sample posts, the post of the
  other category first, and not the two posts that the combined view \<open>apply_spec\<close> of
  the current settings holds.
\<close>

theorem composition_counterexample:
  "currentFilter (run sample_host [CategoryChange (js ''tech''), SortChange (js ''oldest'')]
      sample_world) = js ''tech''
   \<and> sortOrder (run sample_host [CategoryChange (js ''tech''), SortChange (js ''oldest'')]
      sample_world) = js ''oldest''
   \<and> container (run sample_host [CategoryChange (js ''tech''), SortChange (js ''oldest'')]
      sample_world)
     = Some (listing sample_host [postB, postA, postC])
   \<and> apply_spec sample_host (stored sample_world)
        \<lparr>activeCategory = js ''tech'', searchTerm = [], order = js ''oldest''\<rparr> = [postA, postC]
   \<and> container (run sample_host [CategoryChange (js ''tech''), SortChange (js ''oldest'')]
      sample_world)
     \<noteq> Some (listing sample_host (apply_spec sample_host (stored sample_world)
          \<lparr>activeCategory = js ''tech'', searchTerm = [], order = js ''oldest''\<rparr>))"
proof -
  let ?w1 = "filterByCategory sample_host (js ''tech'') sample_world"
  let ?V = "\<lparr>activeCategory = js ''tech'', searchTerm = [], order = js ''oldest''\<rparr>"
  have r: "run sample_host [CategoryChange (js ''tech''), SortChange (js ''oldest'')] sample_world
        = sortChange sample_host (js ''oldest'') ?w1"
    by (simp add: run_def)
  have "container ?w1 \<noteq> None"
    using handle_container [of sample_host "CategoryChange (js ''tech'')" sample_world]
      sample_container by simp
  then obtain old where old: "container ?w1 = Some old" by auto
  have "stored ?w1 = stored sample_world"
    using handle_stored [OF sample_allocated, of sample_host "CategoryChange (js ''tech'')"]
    by simp
  then have s1: "stored ?w1 = [postA, postB, postC]"
    by (simp only: sample_stored)
  have "container (sortChange sample_host (js ''oldest'') ?w1)
      = Some (listing sample_host (sortList sample_host (byDate sample_host (js ''oldest'')) (stored ?w1)))"
    by (rule sortChange_view [OF old])
  then have view: "container (sortChange sample_host (js ''oldest'') ?w1)
      = Some (listing sample_host [postB, postA, postC])"
    by (simp only: s1 sample_sorted_oldest)
  have "apply_spec sample_host [postA, postB, postC] ?V = [postA, postC]"
    by (simp add: apply_spec_def time_of_def sample_defs js_eval Let_def)
  then have spec: "apply_spec sample_host (stored sample_world) ?V = [postA, postC]"
    by (simp only: sample_stored)
  have d: "article sample_host postB @ x \<noteq> article sample_host postA @ y" for x y
    by (simp add: article_def numberToString_def sample_defs js_eval)
  have ne: "listing sample_host [postB, postA, postC] \<noteq> listing sample_host [postA, postC]"
    by (simp only: listing_Cons d not_False_eq_True)
  have cf: "currentFilter (sortChange sample_host (js ''oldest'') ?w1) = js ''tech''"
    by (simp only: handle_state)
  have so: "sortOrder (sortChange sample_host (js ''oldest'') ?w1) = js ''oldest''"
    by (simp only: handle_state)
  have differs: "container (sortChange sample_host (js ''oldest'') ?w1)
      \<noteq> Some (listing sample_host (apply_spec sample_host (stored sample_world) ?V))"
    using ne by (simp only: view spec option.inject not_False_eq_True)
  show ?thesis
    unfolding r using cf so view spec differs by blast
qed

text \<open>
  C1, amended. On a page that has the container, each control displays the result of its
  own step applied to the whole stored collection: a category change the posts of that
  category (all posts for \<open>"all"\<close>) in stored order, a search input the posts matching
  the lower-cased value in stored order, a sort change all stored posts. When every
  stored date parses, the sort change shows them by descending time value for
  \<open>"newest"\<close> and by ascending time value otherwise, ties in stored order. When a date
  does not parse the order is the engine's own, and the view still holds every stored
  post once if that order is a rearrangement of the array. The settings of the other two
  controls do not enter the view.
\<close>

theorem each_control_alone:
  "container w = Some old \<Longrightarrow>
   container (filterByCategory h c w) =
     Some (listing h (if c = js ''all'' then stored w else filter (\<lambda>p. category p = c) (stored w)))
   \<and> container (searchInput h v w) =
     Some (listing h (filter (matches h (toLowerCase h v)) (stored w)))
   \<and> ((\<forall>p \<in> set (stored w). Date_value h (date p) \<noteq> None) \<longrightarrow>
        container (sortChange h ord w) =
          Some (listing h (if ord = js ''newest'' then sort_key (\<lambda>p. - time_of h p) (stored w)
                           else sort_key (time_of h) (stored w))))
   \<and> ((\<forall>comparefn xs. mset (engine_sort h comparefn xs) = mset xs) \<longrightarrow>
        (\<exists>shown. container (sortChange h ord w) = Some (listing h shown)
                 \<and> mset shown = mset (stored w)))"
proof -
  assume page: "container w = Some old"
  have sorted: "container (sortChange h ord w)
      = Some (listing h (sortList h (byDate h ord) (stored w)))"
    using page by (rule sortChange_view)
  have dated: "(\<forall>p \<in> set (stored w). Date_value h (date p) \<noteq> None) \<longrightarrow>
      container (sortChange h ord w) =
        Some (listing h (if ord = js ''newest'' then sort_key (\<lambda>p. - time_of h p) (stored w)
                         else sort_key (time_of h) (stored w)))"
    using sorted sortList_byDate [of "stored w" h ord] by simp
  have every: "(\<forall>comparefn xs. mset (engine_sort h comparefn xs) = mset xs) \<longrightarrow>
      (\<exists>shown. container (sortChange h ord w) = Some (listing h shown)
               \<and> mset shown = mset (stored w))"
    using sorted mset_sortList [of h "byDate h ord" "stored w"] by blast
  show ?thesis
    using page dated every by (simp add: filterByCategory_view searchInput_view)
qed

theorem each_control_alone_witness:
  "container sample_world = Some []
   \<and> container (filterByCategory sample_host (js ''tech'') sample_world)
     = Some (listing sample_host [postA, postC])
   \<and> container (searchInput sample_host (js ''HELLO'') sample_world)
     = Some (listing sample_host [postA, postC])
   \<and> container (sortChange sample_host (js ''oldest'') sample_world)
     = Some (listing sample_host [postB, postA, postC])
   \<and> sort_key (time_of sample_host) (stored sample_world) = [postB, postA, postC]
   \<and> (\<exists>shown. container (sortChange sample_host (js ''oldest'') sample_world)
                = Some (listing sample_host shown)
              \<and> mset shown = mset (stored sample_world))"
proof -
  note each = each_control_alone [OF sample_container, of sample_host "js ''tech''"
      "js ''HELLO''" "js ''oldest''"]
  have "container (filterByCategory sample_host (js ''tech'') sample_world)
      = Some (listing sample_host (filter (\<lambda>p. category p = js ''tech'') (stored sample_world)))"
    using each tech_not_all by simp
  then have 1: "container (filterByCategory sample_host (js ''tech'') sample_world)
      = Some (listing sample_host [postA, postC])"
    by (simp only: sample_stored sample_tech)
  have "container (searchInput sample_host (js ''HELLO'') sample_world)
      = Some (listing sample_host
          (filter (matches sample_host (toLowerCase sample_host (js ''HELLO''))) (stored sample_world)))"
    using each by blast
  then have 2: "container (searchInput sample_host (js ''HELLO'') sample_world)
      = Some (listing sample_host [postA, postC])"
    by (simp only: sample_stored sample_hello)
  have valid: "\<forall>p \<in> set (stored sample_world). Date_value sample_host (date p) \<noteq> None"
    using sample_dates_valid by (simp only: sample_stored)
  have 4: "sort_key (time_of sample_host) (stored sample_world) = [postB, postA, postC]"
    by (simp only: sample_stored sample_sort_key_oldest)
  have "container (sortChange sample_host (js ''oldest'') sample_world)
      = Some (listing sample_host (sort_key (time_of sample_host) (stored sample_world)))"
    using each valid oldest_not_newest by presburger
  then have 3: "container (sortChange sample_host (js ''oldest'') sample_world)
      = Some (listing sample_host [postB, postA, postC])"
    by (simp only: 4)
  have 5: "\<exists>shown. container (sortChange sample_host (js ''oldest'') sample_world)
                = Some (listing sample_host shown)
              \<and> mset shown = mset (stored sample_world)"
    using each sample_engine by blast
  show ?thesis
    using sample_container 1 2 3 4 5 by blast
qed

section \<open>Empty results\<close>

text \<open>
  Where the fallback exists. On a page that has the container, \<open>renderPosts\<close> of the first manager shows the
  paragraph \<open>no_posts_message\<close> for an empty array, also when the category filter or the
  search leaves no post, and never leaves the container empty; \<open>renderFilteredPosts\<close> of
  the simple manager shows the panel \<open>no_results_panel\<close> for an empty array, also when
  its search leaves no post, and never leaves the container empty either. Neither text is
  the empty string.
\<close>

theorem empty_result_message:
  "(container w = Some old \<and> cells w a = [] \<longrightarrow>
      container (renderPosts h a w) = Some no_posts_message)
   \<and> (container w = Some old \<longrightarrow> container (renderPosts h a w) \<noteq> Some [])
   \<and> (container w = Some old \<and> c \<noteq> js ''all'' \<and> filter (\<lambda>p. category p = c) (stored w) = [] \<longrightarrow>
      container (filterByCategory h c w) = Some no_posts_message)
   \<and> (container w = Some old \<and> filter (matches h (toLowerCase h v)) (stored w) = [] \<longrightarrow>
      container (searchInput h v w) = Some no_posts_message)
   \<and> (container m = Some old' \<longrightarrow> container (renderFilteredPosts h [] m) = Some no_results_panel)
   \<and> (container m = Some old' \<and> filter (matches h (toLowerCase h v)) (posts' m) = [] \<longrightarrow>
      container (searchInput' h v m) = Some no_results_panel)
   \<and> (container m = Some old' \<longrightarrow> container (renderFilteredPosts h ps m) \<noteq> Some [])
   \<and> no_posts_message \<noteq> [] \<and> no_results_panel \<noteq> []"
  by (simp add: renderPosts_container listing_Nil listing_not_empty filterByCategory_view
      searchInput_view renderFilteredPosts_def renderPosts'_def postsHTML_empty_iff
      searchInput'_def filterAndRenderPosts_def
      no_posts_message_not_empty no_results_panel_not_empty)

theorem empty_result_message_witness:
  "container (filterByCategory sample_host (js ''travel'') sample_world) = Some no_posts_message
   \<and> container (searchInput sample_host (js ''zebra'') sample_world) = Some no_posts_message
   \<and> container (searchInput' sample_host (js ''zebra'') sample_simple) = Some no_results_panel
   \<and> container (renderFilteredPosts sample_host [] sample_simple) = Some no_results_panel
   \<and> no_posts_message \<noteq> [] \<and> no_results_panel \<noteq> []"
proof -
  note empty = empty_result_message [of sample_world "[]" 0 sample_host "js ''travel''"
      "js ''zebra''" sample_simple "[]"]
  have all: "js ''travel'' \<noteq> js ''all''"
    by (simp add: js_eval)
  have f: "filter (\<lambda>p. category p = js ''travel'') (stored sample_world) = []"
    by (simp add: sample_stored sample_defs js_eval)
  have g: "filter (matches sample_host (toLowerCase sample_host (js ''zebra''))) (stored sample_world)
      = []"
    by (simp add: sample_stored matches_def sample_defs js_eval)
  have g': "filter (matches sample_host (toLowerCase sample_host (js ''zebra''))) (posts' sample_simple)
      = []"
    by (simp add: sample_simple_page matches_def sample_defs js_eval)
  show ?thesis
    using empty all f g g' sample_container sample_simple_page(1) by blast
qed

text \<open>
  \<open>renderPosts'\<close>, the \<open>renderPosts\<close> of the simple manager, has no fallback text:
  with an empty array it writes the empty string. The simple manager calls it with its
  whole collection after loading (line 1139) and, from \<open>renderFilteredPosts\<close>, with a
  selection that is not empty; its search never reaches it with an empty selection.
\<close>

lemma renderPosts'_no_fallback:
  "container m = Some old \<Longrightarrow> container (renderPosts' h [] m) = Some []"
  by (simp add: renderPosts'_def postsHTML_Nil)

text \<open>
  C7, on the code: when the simple manager holds an empty collection (the data source
  delivers an empty \<open>posts\<close> array), its \<open>renderPosts()\<close> after loading leaves the
  container of the page with the empty string: no placeholder and no message, where
  \<open>renderPosts\<close> of the first manager writes \<open>no_posts_message\<close> for the same
  collection.
\<close>

theorem simple_renderPosts_empty_collection:
  "posts' (sample_simple\<lparr>posts' := []\<rparr>) = []
   \<and> container (sample_simple\<lparr>posts' := []\<rparr>) = Some []
   \<and> container (renderPosts' sample_host (posts' (sample_simple\<lparr>posts' := []\<rparr>))
        (sample_simple\<lparr>posts' := []\<rparr>)) = Some []
   \<and> listing sample_host [] = no_posts_message
   \<and> no_posts_message \<noteq> []"
  by (simp add: renderPosts'_def postsHTML_Nil sample_simple_def listing_Nil
      no_posts_message_not_empty)

section \<open>Load failure\<close>

text \<open>
  C3, as the specification states it, fails for a body that is well-formed JSON of the
  wrong shape: when the response is \<open>ok\<close> and its body parses to a value without a
  \<open>posts\<close> array (such as \<open>{}\<close>), nothing is thrown, line 252 stores \<open>data.posts\<close>
  as it is, and \<open>fetchPosts\<close> returns without fallback post and without log entry.
\<close>

theorem fetchPosts_wrong_shape_counterexample:
  "fetchPosts (js ''2024-03-06T00:00:00.000Z'') (Response True (Data NoPostsArray))
      (initial \<lparr>container = Some [], console = []\<rparr>)
     = NotAnArray (initial \<lparr>container = Some [], console = []\<rparr>)
   \<and> console (initial \<lparr>container = Some [], console = []\<rparr>) = []
   \<and> store_contents (fetchPosts (js ''2024-03-06T00:00:00.000Z'') (Response True (Data NoPostsArray))
        (initial \<lparr>container = Some [], console = []\<rparr>))
     \<noteq> Some [fallback_post (js ''2024-03-06T00:00:00.000Z'')]"
  by (simp add: fetchPosts_def fetchPosts_try_def store_contents_def initial_def)

text \<open>
  C3, amended. Whenever the request is rejected, the response is not \<open>ok\<close>, the body is
  not JSON, or the body is the JSON value \<open>null\<close>, \<open>fetchPosts\<close> returns with the
  store holding exactly one post: the fallback post with id 1, the title "an error has
  occurred", the author "system" and the category "error" (written by their code units),
  and the error is logged. When the response is \<open>ok\<close> and the body is any other JSON
  value without a \<open>posts\<close> array, the value of \<open>data.posts\<close> is stored as it is and
  nothing is logged; with a \<open>posts\<close> array the store holds that array. The function
  has no other outcome: no error leaves it.
\<close>

theorem fetchPosts_fallback:
  "response = Failed \<or> (\<exists>b. response = Response False b) \<or> response = Response True Malformed
     \<or> response = Response True (Data Null) \<Longrightarrow>
   store_contents (fetchPosts now response w) = Some [fallback_post now]
   \<and> id' (fallback_post now) = 1
   \<and> title (fallback_post now) =
       [0x30A8, 0x30E9, 0x30FC, 0x304C, 0x767A, 0x751F, 0x3057, 0x307E, 0x3057, 0x305F]
   \<and> author (fallback_post now) = [0x30B7, 0x30B9, 0x30C6, 0x30E0]
   \<and> category (fallback_post now) = [0x30A8, 0x30E9, 0x30FC]
   \<and> (\<exists>e w'. fetchPosts now response w = Stored w'
          \<and> console w' = console w @ [(fetch_error_label, e)])
   \<and> fetchPosts now (Response True (Data NoPostsArray)) w = NotAnArray w
   \<and> store_contents (fetchPosts now (Response True (Data NoPostsArray)) w) = None
   \<and> store_contents (fetchPosts now (Response True (Data (PostsArray ps))) w) = Some ps"
proof -
  assume "response = Failed \<or> (\<exists>b. response = Response False b)
      \<or> response = Response True Malformed \<or> response = Response True (Data Null)"
  then obtain e where e: "fetchPosts_try response w = Inl e"
    by (auto simp: fetchPosts_try_def)
  have caught: "store_contents (fetchPosts now response w) = Some [fallback_post now]
      \<and> (\<exists>w'. fetchPosts now response w = Stored w'
            \<and> console w' = console w @ [(fetch_error_label, e)])"
    using e by (simp add: fetchPosts_def alloc_def stored_def store_contents_def)
  have other: "fetchPosts now (Response True (Data NoPostsArray)) w = NotAnArray w
      \<and> store_contents (fetchPosts now (Response True (Data NoPostsArray)) w) = None
      \<and> store_contents (fetchPosts now (Response True (Data (PostsArray ps))) w) = Some ps"
    by (simp add: fetchPosts_def fetchPosts_try_def alloc_def stored_def store_contents_def)
  have fields: "id' (fallback_post now) = 1
      \<and> title (fallback_post now) =
          [0x30A8, 0x30E9, 0x30FC, 0x304C, 0x767A, 0x751F, 0x3057, 0x307E, 0x3057, 0x305F]
      \<and> author (fallback_post now) = [0x30B7, 0x30B9, 0x30C6, 0x30E0]
      \<and> category (fallback_post now) = [0x30A8, 0x30E9, 0x30FC]"
    by (simp add: fallback_post_def error_title_def system_author_def error_category_def)
  show ?thesis
    using caught other fields by blast
qed

theorem fetchPosts_fallback_witness:
  "store_contents (fetchPosts (js ''2024-03-06T00:00:00.000Z'')
      (Response False (Data (PostsArray [postA])))
      (initial \<lparr>container = Some [], console = []\<rparr>))
     = Some [\<lparr>id' = 1,
         title = [0x30A8, 0x30E9, 0x30FC, 0x304C, 0x767A, 0x751F, 0x3057, 0x307E, 0x3057, 0x305F],
         body = error_body, date = js ''2024-03-06T00:00:00.000Z'',
         author = [0x30B7, 0x30B9, 0x30C6, 0x30E0], category = [0x30A8, 0x30E9, 0x30FC]\<rparr>]
   \<and> store_contents (fetchPosts (js ''2024-03-06T00:00:00.000Z'') (Response True (Data Null))
      (initial \<lparr>container = Some [], console = []\<rparr>))
     = Some [fallback_post (js ''2024-03-06T00:00:00.000Z'')]
   \<and> store_contents (fetchPosts (js ''2024-03-06T00:00:00.000Z'')
      (Response True (Data (PostsArray [postA, postB, postC])))
      (initial \<lparr>container = Some [], console = []\<rparr>))
     = Some [postA, postB, postC]"
proof -
  let ?now = "js ''2024-03-06T00:00:00.000Z''"
  let ?w = "initial \<lparr>container = Some [], console = []\<rparr>"
  have fails: "Response False (Data (PostsArray [postA])) = Failed
      \<or> (\<exists>b. Response False (Data (PostsArray [postA])) = Response False b)
      \<or> Response False (Data (PostsArray [postA])) = Response True Malformed
      \<or> Response False (Data (PostsArray [postA])) = Response True (Data Null)"
    by simp
  have null: "Response True (Data Null) = Failed
      \<or> (\<exists>b. Response True (Data Null) = Response False b)
      \<or> Response True (Data Null) = Response True Malformed
      \<or> Response True (Data Null) = Response True (Data Null)"
    by simp
  note http500 = fetchPosts_fallback [OF fails, of ?now ?w "[postA, postB, postC]"]
  note jsonnull = fetchPosts_fallback [OF null, of ?now ?w "[postA, postB, postC]"]
  have "store_contents (fetchPosts ?now (Response False (Data (PostsArray [postA]))) ?w)
      = Some [fallback_post ?now]"
    using http500 by blast
  then have 1: "store_contents (fetchPosts ?now (Response False (Data (PostsArray [postA]))) ?w)
     = Some [\<lparr>id' = 1,
         title = [0x30A8, 0x30E9, 0x30FC, 0x304C, 0x767A, 0x751F, 0x3057, 0x307E, 0x3057, 0x305F],
         body = error_body, date = ?now,
         author = [0x30B7, 0x30B9, 0x30C6, 0x30E0], category = [0x30A8, 0x30E9, 0x30FC]\<rparr>]"
    by (simp add: fallback_post_def error_title_def system_author_def error_category_def)
  have 2: "store_contents (fetchPosts ?now (Response True (Data Null)) ?w)
      = Some [fallback_post ?now]"
    using jsonnull by blast
  have 3: "store_contents (fetchPosts ?now (Response True (Data (PostsArray [postA, postB, postC]))) ?w)
      = Some [postA, postB, postC]"
    using jsonnull by blast
  show ?thesis
    using 1 2 3 by blast
qed

section \<open>The detail view\<close>

lemma start_unknown:
  assumes "\<forall>p \<in> set (posts' m). id' p \<noteq> postId"
  shows "showPostDetail_start postId m = Inl (Error not_found_message)"
proof -
  have "find (\<lambda>p. id' p = postId) (posts' m) = None"
    using assms by (auto simp: find_None_iff)
  then show ?thesis
    by (simp add: showPostDetail_start_def)
qed

text \<open>
  C8. For every identifier that no post of the store has, \<open>showPostDetail\<close> only logs
  the error "post not found": no modal is appended to the document, no request for
  comments is sent, nothing is rendered, and the detail view is after the call in the
  state it was in before (\<open>Closed\<close> when it was closed).
\<close>

theorem showPostDetail_unknown_id:
  "\<forall>p \<in> set (posts' m). id' p \<noteq> postId \<Longrightarrow>
   showPostDetail postId response m =
     m\<lparr>console := console m @ [(detail_error_label, Error not_found_message)]\<rparr>
   \<and> modals (showPostDetail postId response m) = modals m
   \<and> awaiting (showPostDetail postId response m) = awaiting m
   \<and> detail_trace postId response m = [detail_view m, detail_view m]"
  by (simp add: start_unknown showPostDetail_def detail_trace_def catch_detail_def detail_view_def)

theorem showPostDetail_unknown_id_witness:
  "map id' (posts' sample_simple) = [1, 2, 3]
   \<and> modals (showPostDetail 99 (Response True (Data [])) sample_simple) = []
   \<and> awaiting (showPostDetail 99 (Response True (Data [])) sample_simple) = []
   \<and> console (showPostDetail 99 (Response True (Data [])) sample_simple)
     = [(detail_error_label, Error not_found_message)]
   \<and> detail_trace 99 (Response True (Data [])) sample_simple = [Closed, Closed]"
proof -
  have unknown: "\<forall>p \<in> set (posts' sample_simple). id' p \<noteq> 99"
    by (simp add: sample_simple_def sample_defs)
  have ids: "map id' (posts' sample_simple) = [1, 2, 3]"
    by (simp add: sample_simple_def sample_defs)
  show ?thesis
    using showPostDetail_unknown_id [OF unknown, of "Response True (Data [])"] ids
    by (simp add: sample_simple_def detail_view_def)
qed

text \<open>
  The modal is never appended, whatever the identifier and the reply: for a post of the
  store, \<open>renderPostsDetail\<close> reads \<open>this.document\<close>, which is \<open>undefined\<close>, and the
  TypeError is caught and logged by \<open>showPostDetail\<close>.
\<close>

lemma showPostDetail_never_inserts: "modals (showPostDetail postId response m) = modals m"
  by (simp add: showPostDetail_def showPostDetail_start_def showPostDetail_resume_def
      renderPostsDetail_def this_document_def catch_detail_def Let_def
      split: option.splits fetch_result.splits json_body.splits)

text \<open>
  The markup that \<open>renderPostsDetail\<close> builds for a post and one comment holds the
  title and the body of the post and one comment block with the three fields of the
  comment; only the element that should carry it is never created.
\<close>

lemma str_includes_prefix: "str_includes (t @ b) t"
  by (auto simp: str_includes_iff intro: exI [of _ "[]"])

lemma str_includes_append: "str_includes s t \<Longrightarrow> str_includes (a @ s) t"
proof -
  assume "str_includes s t"
  then obtain x y where "s = x @ t @ y" by (auto simp: str_includes_iff)
  then have "a @ s = (a @ x) @ t @ y" by simp
  then show ?thesis unfolding str_includes_iff by blast
qed

lemma renderComments_single: "renderComments [c] = commentHTML c"
  by (simp add: renderComments_def join_def)

lemma commentHTML_fields:
  "str_includes (commentHTML c) (name c) \<and> str_includes (commentHTML c) (body' c)
   \<and> str_includes (commentHTML c) (email c)"
  unfolding commentHTML_def
  by (intro conjI str_includes_append str_includes_prefix)

lemma modalHTML_contents:
  "str_includes (modalHTML p [c]) (title p) \<and> str_includes (modalHTML p [c]) (body p)
   \<and> str_includes (modalHTML p [c]) (commentHTML c)"
  unfolding modalHTML_def renderComments_single
  by (intro conjI str_includes_append str_includes_prefix)

text \<open>
  C2, on the code: with the post of id 1 in the store and a reply holding the one comment
  A, B, c@d.com, the detail view goes from \<open>Closed\<close> to \<open>Loading\<close> and back to
  \<open>Closed\<close>: no modal is in the document, and the log holds the TypeError.
\<close>

theorem showPostDetail_present_post:
  "find (\<lambda>p. id' p = 1) (posts' sample_simple) = Some postA
   \<and> modals (showPostDetail 1
      (Response True (Data [\<lparr>name = js ''A'', body' = js ''B'', email = js ''c@d.com''\<rparr>]))
      sample_simple) = []
   \<and> console (showPostDetail 1
      (Response True (Data [\<lparr>name = js ''A'', body' = js ''B'', email = js ''c@d.com''\<rparr>]))
      sample_simple) = [(detail_error_label, TypeError)]
   \<and> detail_trace 1
      (Response True (Data [\<lparr>name = js ''A'', body' = js ''B'', email = js ''c@d.com''\<rparr>]))
      sample_simple = [Closed, Loading, Closed]"
  by (simp add: showPostDetail_def showPostDetail_start_def showPostDetail_resume_def
      renderPostsDetail_def this_document_def catch_detail_def detail_trace_def detail_view_def
      sample_simple_def postA_def postB_def postC_def comments_url_def Let_def)

section \<open>Header opacity\<close>

text \<open>
  C10. For every scroll position, the opacity computed by \<open>calculateOpacity\<close> lies in
  the closed interval from \<open>headerOpacityMin = 0.6\<close> to \<open>headerOpacityMax = 0.9\<close>.
\<close>

theorem calculateOpacity_bounds:
  "headerOpacityMin CONFIG_scroll \<le> calculateOpacity scrollTop
   \<and> calculateOpacity scrollTop \<le> headerOpacityMax CONFIG_scroll
   \<and> headerOpacityMin CONFIG_scroll = 0.6 \<and> headerOpacityMax CONFIG_scroll = 0.9"
  unfolding calculateOpacity_def CONFIG_scroll_def
  by (simp add: min_def max_def)

theorem calculateOpacity_bounds_witness:
  "calculateOpacity 0 = 0.9 \<and> calculateOpacity 25 = 0.75 \<and> calculateOpacity 100000 = 0.6
   \<and> headerOpacityMin CONFIG_scroll \<le> calculateOpacity 25
   \<and> calculateOpacity 25 \<le> headerOpacityMax CONFIG_scroll"
  using calculateOpacity_bounds [of 25]
  unfolding calculateOpacity_def CONFIG_scroll_def
  by (simp add: min_def max_def)

end
